theory Spec2Isabelle
  imports Main "HOL-Library.Sublist"
begin

section \<open>The notebooks as programs\<close>

text \<open>
  The repository holds two Jupyter notebooks. Their code cells are Python: imports,
  IPython magics, assignments, expression statements (calls and displayed values) and
  one \<open>if\<close>. The cells are embedded as data (the statements of each code cell, in
  cell order, under the cell's id) and run by an evaluator for that fragment of
  Python. Statement and expression forms of Python that a claim speaks of (loops,
  \<open>try\<close>, \<open>def\<close>, \<open>class\<close>, \<open>assert\<close>, \<open>raise\<close>, \<open>with\<close>, \<open>lambda\<close>) are
  constructors of the syntax as well, so that their absence from a notebook is a fact
  about the notebook and not about the type.
\<close>

subsection \<open>Syntax\<close>

datatype binop = MultOp | ModOp

datatype expr =
    Name string
  | StrLit string
  | IntLit int
  | FloatLit string
  | BoolLit bool
  | Attr expr string
  | Subscr expr expr
  | Call expr "expr list" "kwarg list"
  | ListE "expr list"
  | TupleE "expr list"
  | DictE "(expr \<times> expr) list"
  | NotE expr
  | BinOp expr binop expr
  | Lambda "string list" expr
and kwarg = Kw string expr | StarStar expr

datatype target = TName string | TAttr expr string | TSubscr expr expr

datatype stmt =
    Magic string
  | Import string "string option"
  | ImportFrom string "(string \<times> string option) list"
  | Assign target expr
  | ExprStmt expr
  | IfS expr "stmt list" "stmt list"
  | WhileS expr "stmt list"
  | ForS target expr "stmt list"
  | TryS "stmt list" "stmt list"
  | WithS expr "stmt list"
  | FunDef string "stmt list"
  | ClassDef string "stmt list"
  | AssertS expr
  | RaiseS expr

record cell =
  cell_id :: string
  source :: "stmt list"

type_synonym notebook = "cell list"

text \<open>\<open>path x [a, b]\<close> is the dotted name \<open>x.a.b\<close>.\<close>

definition path :: "string \<Rightarrow> string list \<Rightarrow> expr" where
  "path x as = foldl Attr (Name x) as"

subsection \<open>Values, external operations and the external world\<close>

text \<open>
  Everything the notebooks compute is computed by libraries they import, so the value
  of an external operation is kept symbolic: \<open>VExt k\<close> is the result of the \<open>k\<close>-th
  external operation of the run, \<open>VLib m\<close> an imported module, \<open>VAttr v a\<close> and
  \<open>VItem v i\<close> an attribute and an item of an external object, \<open>VBin\<close> arithmetic on
  such values. The external operations of a run, in the order they are attempted, are
  its trace: magics, imports, calls, and stores into external objects.

  What the external world decides is a parameter of every run: whether the \<open>k\<close>-th
  operation raises, and whether an external value is true when an \<open>if\<close> or a \<open>not\<close>
  tests it.
\<close>

datatype val =
    VStr string
  | VInt int
  | VFloat string
  | VBool bool
  | VList "val list"
  | VTuple "val list"
  | VDict "(val \<times> val) list"
  | VBuiltin string
  | VLib string
  | VAttr val string
  | VItem val val
  | VBin binop val val
  | VExt nat

datatype event =
    EMagic string
  | EImport string "string list"
  | ECall val "val list" "(string \<times> val) list"
  | ESet val val

datatype error = Raised nat | NameError string | KeyError | TypeError | Unsupported

record extern =
  raises :: "nat \<Rightarrow> bool"
  truth :: "val \<Rightarrow> bool"

type_synonym env = "(string \<times> val) list"

text \<open>
  A result: the value or the error, and the external operations attempted on the way,
  in order. The evaluator takes the number of operations attempted before, which
  numbers the next one.
\<close>

type_synonym 'a res = "(error + 'a) \<times> event list"

fun lookup :: "('k \<times> 'v) list \<Rightarrow> 'k \<Rightarrow> 'v option" where
  "lookup [] k = None"
| "lookup (kv # kvs) k = (if fst kv = k then Some (snd kv) else lookup kvs k)"

fun after :: "event list \<Rightarrow> 'a res \<Rightarrow> 'a res" where
  "after t (r, t1) = (r, t @ t1)"

fun opaque :: "val \<Rightarrow> bool" where
  "opaque (VBuiltin _) = True"
| "opaque (VLib _) = True"
| "opaque (VAttr _ _) = True"
| "opaque (VItem _ _) = True"
| "opaque (VBin _ _ _) = True"
| "opaque (VExt _) = True"
| "opaque _ = False"

fun callable :: "val \<Rightarrow> bool" where
  "callable (VBuiltin _) = True"
| "callable (VLib _) = True"
| "callable (VAttr _ _) = True"
| "callable (VItem _ _) = True"
| "callable (VExt _) = True"
| "callable _ = False"

fun numeric :: "val \<Rightarrow> bool" where
  "numeric (VInt _) = True"
| "numeric (VFloat _) = True"
| "numeric (VBool _) = True"
| "numeric v = opaque v"

fun truthy :: "extern \<Rightarrow> val \<Rightarrow> bool" where
  "truthy x (VBool b) = b"
| "truthy x (VStr s) = (s \<noteq> [])"
| "truthy x (VInt i) = (i \<noteq> 0)"
| "truthy x (VList vs) = (vs \<noteq> [])"
| "truthy x (VTuple vs) = (vs \<noteq> [])"
| "truthy x (VDict kvs) = (kvs \<noteq> [])"
| "truthy x v = truth x v"

text \<open>
  An external operation is attempted (it enters the trace) and then either raises or
  returns its symbolic result.
\<close>

definition ext_op :: "extern \<Rightarrow> nat \<Rightarrow> event \<Rightarrow> val res" where
  "ext_op x n ev = (if raises x n then (Inl (Raised n), [ev]) else (Inr (VExt n), [ev]))"

text \<open>\<open>fmt % s\<close> for a format with the single conversion \<open>%s\<close> and a string operand.\<close>

fun subst_s :: "string \<Rightarrow> string \<Rightarrow> string option" where
  "subst_s (c # d # cs) s =
     (if c = CHR ''%'' then
        (if d = CHR ''s'' \<and> CHR ''%'' \<notin> set cs then Some (s @ cs) else None)
      else map_option ((#) c) (subst_s (d # cs) s))"
| "subst_s cs s = None"

fun binop_val :: "binop \<Rightarrow> val \<Rightarrow> val \<Rightarrow> error + val" where
  "binop_val ModOp (VStr f) (VStr s) =
     (case subst_s f s of None \<Rightarrow> Inl Unsupported | Some r \<Rightarrow> Inr (VStr r))"
| "binop_val op a b = (if numeric a \<and> numeric b then Inr (VBin op a b) else Inl Unsupported)"

text \<open>
  Keyword arguments after evaluation: \<open>**d\<close> of a dictionary built by the notebook
  contributes its entries, \<open>**v\<close> of an external mapping is passed on under the key
  \<open>**\<close>.
\<close>

fun str_key :: "val \<times> val \<Rightarrow> (string \<times> val) option" where
  "str_key (VStr k, v) = Some (k, v)"
| "str_key kv = None"

fun unpack :: "val \<Rightarrow> (string \<times> val) list option" where
  "unpack (VDict kvs) = those (map str_key kvs)"
| "unpack v = (if opaque v then Some [(''**'', v)] else None)"

definition py_dict :: "val list \<Rightarrow> (string \<times> val) list \<Rightarrow> error + val" where
  "py_dict avs kvs =
     (if avs \<noteq> [] \<or> ''**'' \<in> set (map fst kvs) then Inl Unsupported
      else Inr (VDict (map (\<lambda>kv. (VStr (fst kv), snd kv)) kvs)))"

text \<open>
  A call: the builtin \<open>dict\<close> builds a dictionary inside the notebook; every other
  callee is external and the call is an external operation. A keyword given twice is
  Python's \<open>TypeError\<close>.
\<close>

definition apply_call ::
  "extern \<Rightarrow> nat \<Rightarrow> val \<Rightarrow> val list \<Rightarrow> (string \<times> val) list \<Rightarrow> val res" where
  "apply_call x n fv avs kvs =
     (if \<not> distinct (filter (\<lambda>k. k \<noteq> ''**'') (map fst kvs)) then (Inl TypeError, [])
      else if fv = VBuiltin ''dict'' then (py_dict avs kvs, [])
      else if callable fv then ext_op x n (ECall fv avs kvs)
      else (Inl TypeError, []))"

definition subscript :: "val \<Rightarrow> val \<Rightarrow> error + val" where
  "subscript v i =
     (case v of
        VDict kvs \<Rightarrow> (case lookup kvs i of None \<Rightarrow> Inl KeyError | Some r \<Rightarrow> Inr r)
      | _ \<Rightarrow> if opaque v then Inr (VItem v i) else Inl Unsupported)"

subsection \<open>Evaluation of expressions\<close>

text \<open>
  Python's order: the callee, the positional arguments left to right, the keyword
  arguments left to right, then the call. Attribute and item reads of external
  objects stay symbolic.
\<close>

function eval :: "extern \<Rightarrow> env \<Rightarrow> nat \<Rightarrow> expr \<Rightarrow> val res"
  and eval_list :: "extern \<Rightarrow> env \<Rightarrow> nat \<Rightarrow> expr list \<Rightarrow> (val list) res"
  and eval_kws :: "extern \<Rightarrow> env \<Rightarrow> nat \<Rightarrow> kwarg list \<Rightarrow> ((string \<times> val) list) res"
  and eval_items :: "extern \<Rightarrow> env \<Rightarrow> nat \<Rightarrow> (expr \<times> expr) list \<Rightarrow> ((val \<times> val) list) res"
where
  "eval x env n (Name a) =
     (case lookup env a of None \<Rightarrow> (Inl (NameError a), []) | Some v \<Rightarrow> (Inr v, []))"
| "eval x env n (StrLit s) = (Inr (VStr s), [])"
| "eval x env n (IntLit i) = (Inr (VInt i), [])"
| "eval x env n (FloatLit s) = (Inr (VFloat s), [])"
| "eval x env n (BoolLit b) = (Inr (VBool b), [])"
| "eval x env n (Attr e a) =
     (case eval x env n e of
        (Inl err, t1) \<Rightarrow> (Inl err, t1)
      | (Inr v, t1) \<Rightarrow> (if opaque v then Inr (VAttr v a) else Inl Unsupported, t1))"
| "eval x env n (Subscr e i) =
     (case eval x env n e of
        (Inl err, t1) \<Rightarrow> (Inl err, t1)
      | (Inr v, t1) \<Rightarrow> after t1
     (case eval x env (n + length t1) i of
        (Inl err, t2) \<Rightarrow> (Inl err, t2)
      | (Inr iv, t2) \<Rightarrow> (subscript v iv, t2)))"
| "eval x env n (Call f args kws) =
     (case eval x env n f of
        (Inl err, t1) \<Rightarrow> (Inl err, t1)
      | (Inr fv, t1) \<Rightarrow> after t1
     (case eval_list x env (n + length t1) args of
        (Inl err, t2) \<Rightarrow> (Inl err, t2)
      | (Inr avs, t2) \<Rightarrow> after t2
     (case eval_kws x env (n + length t1 + length t2) kws of
        (Inl err, t3) \<Rightarrow> (Inl err, t3)
      | (Inr kvs, t3) \<Rightarrow> after t3
          (apply_call x (n + length t1 + length t2 + length t3) fv avs kvs))))"
| "eval x env n (ListE es) =
     (case eval_list x env n es of
        (Inl err, t1) \<Rightarrow> (Inl err, t1)
      | (Inr vs, t1) \<Rightarrow> (Inr (VList vs), t1))"
| "eval x env n (TupleE es) =
     (case eval_list x env n es of
        (Inl err, t1) \<Rightarrow> (Inl err, t1)
      | (Inr vs, t1) \<Rightarrow> (Inr (VTuple vs), t1))"
| "eval x env n (DictE items) =
     (case eval_items x env n items of
        (Inl err, t1) \<Rightarrow> (Inl err, t1)
      | (Inr kvs, t1) \<Rightarrow> (Inr (VDict kvs), t1))"
| "eval x env n (NotE e) =
     (case eval x env n e of
        (Inl err, t1) \<Rightarrow> (Inl err, t1)
      | (Inr v, t1) \<Rightarrow> (Inr (VBool (\<not> truthy x v)), t1))"
| "eval x env n (BinOp a op b) =
     (case eval x env n a of
        (Inl err, t1) \<Rightarrow> (Inl err, t1)
      | (Inr av, t1) \<Rightarrow> after t1
     (case eval x env (n + length t1) b of
        (Inl err, t2) \<Rightarrow> (Inl err, t2)
      | (Inr bv, t2) \<Rightarrow> (binop_val op av bv, t2)))"
| "eval x env n (Lambda ps e) = (Inl Unsupported, [])"
| "eval_list x env n [] = (Inr [], [])"
| "eval_list x env n (e # es) =
     (case eval x env n e of
        (Inl err, t1) \<Rightarrow> (Inl err, t1)
      | (Inr v, t1) \<Rightarrow> after t1
     (case eval_list x env (n + length t1) es of
        (Inl err, t2) \<Rightarrow> (Inl err, t2)
      | (Inr vs, t2) \<Rightarrow> (Inr (v # vs), t2)))"
| "eval_kws x env n [] = (Inr [], [])"
| "eval_kws x env n (Kw k e # kws) =
     (case eval x env n e of
        (Inl err, t1) \<Rightarrow> (Inl err, t1)
      | (Inr v, t1) \<Rightarrow> after t1
     (case eval_kws x env (n + length t1) kws of
        (Inl err, t2) \<Rightarrow> (Inl err, t2)
      | (Inr kvs, t2) \<Rightarrow> (Inr ((k, v) # kvs), t2)))"
| "eval_kws x env n (StarStar e # kws) =
     (case eval x env n e of
        (Inl err, t1) \<Rightarrow> (Inl err, t1)
      | (Inr v, t1) \<Rightarrow> after t1
     (case unpack v of
        None \<Rightarrow> (Inl TypeError, [])
      | Some entries \<Rightarrow>
     (case eval_kws x env (n + length t1) kws of
        (Inl err, t2) \<Rightarrow> (Inl err, t2)
      | (Inr kvs, t2) \<Rightarrow> (Inr (entries @ kvs), t2))))"
| "eval_items x env n [] = (Inr [], [])"
| "eval_items x env n ((k, e) # items) =
     (case eval x env n k of
        (Inl err, t1) \<Rightarrow> (Inl err, t1)
      | (Inr kv, t1) \<Rightarrow> after t1
     (case eval x env (n + length t1) e of
        (Inl err, t2) \<Rightarrow> (Inl err, t2)
      | (Inr v, t2) \<Rightarrow> after t2
     (case eval_items x env (n + length t1 + length t2) items of
        (Inl err, t3) \<Rightarrow> (Inl err, t3)
      | (Inr kvs, t3) \<Rightarrow> (Inr ((kv, v) # kvs), t3))))"
  by pat_completeness auto
termination
  by (relation "measure (\<lambda>a. case a of
        Inl (Inl (_, _, _, e)) \<Rightarrow> size e
      | Inl (Inr (_, _, _, es)) \<Rightarrow> size_list size es
      | Inr (Inl (_, _, _, kws)) \<Rightarrow> size_list size kws
      | Inr (Inr (_, _, _, items)) \<Rightarrow> size_list (size_prod size size) items)") auto

subsection \<open>Execution of statements, cells and notebooks\<close>

text \<open>
  \<open>import a.b\<close> binds \<open>a\<close>; \<open>import a.b as c\<close> binds \<open>c\<close> to the module \<open>a.b\<close>;
  \<open>from m import n as c\<close> binds \<open>c\<close> to the member \<open>n\<close> of \<open>m\<close>.
\<close>

definition top_package :: "string \<Rightarrow> string" where
  "top_package m = takeWhile (\<lambda>c. c \<noteq> CHR ''.'') m"

fun import_binding :: "string \<Rightarrow> string option \<Rightarrow> string \<times> val" where
  "import_binding m None = (top_package m, VLib (top_package m))"
| "import_binding m (Some a) = (a, VLib m)"

fun from_binding :: "string \<Rightarrow> string \<times> string option \<Rightarrow> string \<times> val" where
  "from_binding m (n, None) = (n, VAttr (VLib m) n)"
| "from_binding m (n, Some a) = (a, VAttr (VLib m) n)"

text \<open>An external operation whose result a statement drops, keeping or extending the variables.\<close>

fun op_then :: "env \<Rightarrow> val res \<Rightarrow> env res" where
  "op_then env (Inl err, t) = (Inl err, t)"
| "op_then env (Inr v, t) = (Inr env, t)"

definition store :: "extern \<Rightarrow> env \<Rightarrow> nat \<Rightarrow> val \<Rightarrow> val \<Rightarrow> val \<Rightarrow> env res" where
  "store x env n obj loc v =
     (if opaque obj then op_then env (ext_op x n (ESet loc v)) else (Inl Unsupported, []))"

text \<open>
  The statements without a body. An assignment evaluates its right-hand side first,
  then the object of its target. Statement forms that occur in neither notebook are
  outside the fragment (\<open>Unsupported\<close>).
\<close>

fun exec_simple :: "extern \<Rightarrow> env \<Rightarrow> nat \<Rightarrow> stmt \<Rightarrow> env res" where
  "exec_simple x env n (Magic m) = op_then env (ext_op x n (EMagic m))"
| "exec_simple x env n (Import m a) =
     op_then (import_binding m a # env) (ext_op x n (EImport m []))"
| "exec_simple x env n (ImportFrom m ns) =
     op_then (rev (map (from_binding m) ns) @ env) (ext_op x n (EImport m (map fst ns)))"
| "exec_simple x env n (Assign (TName a) e) =
     (case eval x env n e of
        (Inl err, t1) \<Rightarrow> (Inl err, t1)
      | (Inr v, t1) \<Rightarrow> (Inr ((a, v) # env), t1))"
| "exec_simple x env n (Assign (TAttr obj a) e) =
     (case eval x env n e of
        (Inl err, t1) \<Rightarrow> (Inl err, t1)
      | (Inr v, t1) \<Rightarrow> after t1
     (case eval x env (n + length t1) obj of
        (Inl err, t2) \<Rightarrow> (Inl err, t2)
      | (Inr ov, t2) \<Rightarrow> after t2
          (store x env (n + length t1 + length t2) ov (VAttr ov a) v)))"
| "exec_simple x env n (Assign (TSubscr obj i) e) =
     (case eval x env n e of
        (Inl err, t1) \<Rightarrow> (Inl err, t1)
      | (Inr v, t1) \<Rightarrow> after t1
     (case eval x env (n + length t1) obj of
        (Inl err, t2) \<Rightarrow> (Inl err, t2)
      | (Inr ov, t2) \<Rightarrow> after t2
     (case eval x env (n + length t1 + length t2) i of
        (Inl err, t3) \<Rightarrow> (Inl err, t3)
      | (Inr iv, t3) \<Rightarrow> after t3
          (store x env (n + length t1 + length t2 + length t3) ov (VItem ov iv) v))))"
| "exec_simple x env n (ExprStmt e) = op_then env (eval x env n e)"
| "exec_simple x env n s = (Inl Unsupported, [])"

text \<open>
  A run also records the statements it starts, each by its position: the index of its
  cell, its index in the cell, and for a statement inside an \<open>if\<close> its index in the
  branch.
\<close>

type_synonym pos = "nat list"
type_synonym outcome = "(error + env) \<times> event list \<times> pos list"

fun after_block :: "event list \<Rightarrow> pos list \<Rightarrow> outcome \<Rightarrow> outcome" where
  "after_block t l (r, t1, l1) = (r, t @ t1, l @ l1)"

fun no_log :: "env res \<Rightarrow> outcome" where
  "no_log (r, t) = (r, t, [])"

function (sequential) exec :: "extern \<Rightarrow> pos \<Rightarrow> env \<Rightarrow> nat \<Rightarrow> stmt \<Rightarrow> outcome"
  and exec_block :: "extern \<Rightarrow> pos \<Rightarrow> nat \<Rightarrow> env \<Rightarrow> nat \<Rightarrow> stmt list \<Rightarrow> outcome"
where
  "exec x p env n (IfS c body orelse) =
     (case eval x env n c of
        (Inl err, t1) \<Rightarrow> (Inl err, t1, [])
      | (Inr v, t1) \<Rightarrow> after_block t1 []
          (if truthy x v then exec_block x p 0 env (n + length t1) body
           else exec_block x p 0 env (n + length t1) orelse))"
| "exec x p env n s = no_log (exec_simple x env n s)"
| "exec_block x p i env n [] = (Inr env, [], [])"
| "exec_block x p i env n (s # ss) =
     (case exec x (p @ [i]) env n s of
        (Inl err, t1, l1) \<Rightarrow> (Inl err, t1, (p @ [i]) # l1)
      | (Inr env1, t1, l1) \<Rightarrow> after_block t1 ((p @ [i]) # l1)
          (exec_block x p (i + 1) env1 (n + length t1) ss))"
  by pat_completeness auto
termination
  by (relation "measure (\<lambda>a. case a of
        Inl (_, _, _, _, s) \<Rightarrow> size s
      | Inr (_, _, _, _, _, ss) \<Rightarrow> size_list size ss)") auto

fun run_cells :: "extern \<Rightarrow> nat \<Rightarrow> env \<Rightarrow> nat \<Rightarrow> cell list \<Rightarrow> outcome" where
  "run_cells x c env n [] = (Inr env, [], [])"
| "run_cells x c env n (cl # cls) =
     (case exec_block x [c] 0 env n (source cl) of
        (Inl err, t1, l1) \<Rightarrow> (Inl err, t1, l1)
      | (Inr env1, t1, l1) \<Rightarrow> after_block t1 l1
          (run_cells x (c + 1) env1 (n + length t1) cls))"

text \<open>The names Python provides before any cell runs, as far as the notebooks use them.\<close>

definition init_env :: env where
  "init_env =
     [(''dict'', VBuiltin ''dict''), (''print'', VBuiltin ''print''),
      (''Warning'', VBuiltin ''Warning'')]"

definition run :: "extern \<Rightarrow> notebook \<Rightarrow> outcome" where
  "run x nb = run_cells x 0 init_env 0 nb"

definition stopped :: "extern \<Rightarrow> notebook \<Rightarrow> error option" where
  "stopped x nb = (case fst (run x nb) of Inl err \<Rightarrow> Some err | Inr env \<Rightarrow> None)"

definition events :: "extern \<Rightarrow> notebook \<Rightarrow> event list" where
  "events x nb = fst (snd (run x nb))"

definition started :: "extern \<Rightarrow> notebook \<Rightarrow> pos list" where
  "started x nb = snd (snd (run x nb))"

section \<open>The notebook "4.19 Analyze a transmon using ElmerFEM"\<close>

text \<open>The code cells, in order, each under its cell id (markdown cells hold no code).\<close>

definition cell_28f8c32e :: cell where
  "cell_28f8c32e = \<lparr>cell_id = ''28f8c32e-5341-49d6-b63f-0e16419b162c'', source =
    [Magic ''%load_ext autoreload'',
     Magic ''%autoreload 2'',
     ImportFrom ''qiskit_metal'' [(''MetalGUI'', None), (''designs'', None)],
     ImportFrom ''qiskit_metal.qlibrary.qubits.transmon_pocket_6'' [(''TransmonPocket6'', None)],
     ImportFrom ''qiskit_metal.renderers.renderer_gmsh.gmsh_renderer'' [(''QGmshRenderer'', None)],
     ImportFrom ''qiskit_metal.renderers.renderer_elmer.elmer_renderer'' [(''QElmerRenderer'', None)],
     ImportFrom ''qiskit_metal.renderers.renderer_elmer.elmer_renderer''
       [(''load_capacitance_matrix_from_file'', None)]]\<rparr>"

definition cell_a76242c0 :: cell where
  "cell_a76242c0 = \<lparr>cell_id = ''a76242c0-3b42-4157-bbcb-a99b3c47937a'', source =
    [Magic ''%metal_heading 1. Create a Transmon Qubit in Qiskit Metal'']\<rparr>"

definition cell_31a7b793 :: cell where
  "cell_31a7b793 = \<lparr>cell_id = ''31a7b793-64a5-44c6-9176-718f9b7c1c66'', source =
    [Assign (TName ''design'') (Call (path ''designs'' [''MultiPlanar'']) [DictE [], BoolLit True] []),
     Assign (TName ''gui'') (Call (Name ''MetalGUI'') [Name ''design''] [])]\<rparr>"

definition cell_6fe517d6 :: cell where
  "cell_6fe517d6 = \<lparr>cell_id = ''6fe517d6-d32f-417c-a8fa-33061c2e54c6'', source =
    [Assign (TName ''conn_pads'')
       (Call (Name ''dict'') []
          [Kw ''connection_pads''
             (Call (Name ''dict'') []
                [Kw ''readout''
                   (Call (Name ''dict'') [] [Kw ''loc_W'' (IntLit 0), Kw ''loc_H'' (IntLit (- 1))]),
                 Kw ''coupler1''
                   (Call (Name ''dict'') [] [Kw ''loc_W'' (IntLit (- 1)), Kw ''loc_H'' (IntLit 1)]),
                 Kw ''coupler2''
                   (Call (Name ''dict'') [] [Kw ''loc_W'' (IntLit 1), Kw ''loc_H'' (IntLit 1)])])]),
     Assign (TName ''q1'')
       (Call (Name ''TransmonPocket6'') [Name ''design'', StrLit ''Q1'']
          [Kw ''options'' (Call (Name ''dict'') [] [StarStar (Name ''conn_pads'')])]),
     ExprStmt (Call (path ''gui'' [''rebuild'']) [] []),
     ExprStmt (Call (path ''gui'' [''autoscale'']) [] [])]\<rparr>"

definition cell_d97e061c :: cell where
  "cell_d97e061c = \<lparr>cell_id = ''d97e061c-fbcc-4419-a30c-8854b8c63444'', source =
    [Magic ''%metal_heading 2. Rendering and meshing your design in the `QGmshRenderer`'']\<rparr>"

definition cell_713202e1 :: cell where
  "cell_713202e1 = \<lparr>cell_id = ''713202e1-dedc-469d-8dc3-9fe99496e42e'', source =
    [Assign (TName ''gmsh_renderer'') (Call (Name ''QGmshRenderer'') [Name ''design''] []),
     ExprStmt (Call (path ''gmsh_renderer'' [''render_design'']) []
       [Kw ''open_pins''
          (ListE [TupleE [StrLit ''Q1'', StrLit ''coupler1''],
                  TupleE [StrLit ''Q1'', StrLit ''coupler2''],
                  TupleE [StrLit ''Q1'', StrLit ''readout'']]),
        Kw ''mesh_geoms'' (BoolLit False)])]\<rparr>"

definition cell_eef5a352 :: cell where
  "cell_eef5a352 = \<lparr>cell_id = ''eef5a352-24f3-4257-968f-be197eeba30d'', source =
    [ExprStmt (Call (path ''gmsh_renderer'' [''launch_gui'']) [] [])]\<rparr>"

definition cell_545d393c :: cell where
  "cell_545d393c = \<lparr>cell_id = ''545d393c-8d57-4914-9dbc-92e8a0f32b0e'', source =
    [ExprStmt (Call (path ''gmsh_renderer'' [''add_mesh'']) []
       [Kw ''dim'' (IntLit 3), Kw ''intelli_mesh'' (BoolLit False)]),
     ExprStmt (Call (path ''gmsh_renderer'' [''launch_gui'']) [] [])]\<rparr>"

definition cell_b851f19f :: cell where
  "cell_b851f19f = \<lparr>cell_id = ''b851f19f-e8d0-479e-b0ae-056fa8a47e9f'', source =
    [Assign (TAttr (path ''gmsh_renderer'' [''options'', ''mesh'']) ''min_size'') (StrLit ''5um''),
     Assign (TAttr (path ''gmsh_renderer'' [''options'', ''mesh'']) ''max_size'') (StrLit ''20um''),
     ExprStmt (Call (path ''gmsh_renderer'' [''render_design'']) []
       [Kw ''open_pins''
          (ListE [TupleE [StrLit ''Q1'', StrLit ''coupler1''],
                  TupleE [StrLit ''Q1'', StrLit ''coupler2''],
                  TupleE [StrLit ''Q1'', StrLit ''readout'']]),
        Kw ''mesh_geoms'' (BoolLit False)]),
     ExprStmt (Call (path ''gmsh_renderer'' [''add_mesh'']) [] [Kw ''intelli_mesh'' (BoolLit False)]),
     ExprStmt (Call (path ''gmsh_renderer'' [''launch_gui'']) [] [])]\<rparr>"

definition cell_4b02fbf9 :: cell where
  "cell_4b02fbf9 = \<lparr>cell_id = ''4b02fbf9-2717-45b8-9293-3bd1121862f9'', source =
    [Assign (TAttr (path ''gmsh_renderer'' [''options'', ''mesh'']) ''min_size'') (StrLit ''5um''),
     Assign (TAttr (path ''gmsh_renderer'' [''options'', ''mesh'']) ''max_size'') (StrLit ''50um''),
     ExprStmt (Call (path ''gmsh_renderer'' [''render_design'']) []
       [Kw ''open_pins''
          (ListE [TupleE [StrLit ''Q1'', StrLit ''coupler1''],
                  TupleE [StrLit ''Q1'', StrLit ''coupler2''],
                  TupleE [StrLit ''Q1'', StrLit ''readout'']]),
        Kw ''mesh_geoms'' (BoolLit True)]),
     ExprStmt (Call (path ''gmsh_renderer'' [''launch_gui'']) [] [])]\<rparr>"

definition cell_af6556de :: cell where
  "cell_af6556de = \<lparr>cell_id = ''af6556de-1546-47b5-8f26-9227af19ff86'', source =
    [ExprStmt (Call (path ''gmsh_renderer'' [''export_mesh'']) [StrLit ''test.msh''] [])]\<rparr>"

definition cell_3672846f :: cell where
  "cell_3672846f = \<lparr>cell_id = ''3672846f-b035-4eab-80a9-3c199eb4fd7c'', source =
    [ExprStmt (Call (path ''gmsh_renderer'' [''close'']) [] [])]\<rparr>"

definition cell_88883f88 :: cell where
  "cell_88883f88 = \<lparr>cell_id = ''88883f88-342e-449c-a1ce-c253a28c0145'', source =
    [Magic ''%metal_heading 3. Rendering your design in `QElmerRenderer` (uses `QGmshRenderer`)'']\<rparr>"

definition cell_8c2f7a6a :: cell where
  "cell_8c2f7a6a = \<lparr>cell_id = ''8c2f7a6a-f6ed-4892-96c3-a62f866ef37c'', source =
    [Assign (TName ''elmer_renderer'') (Call (Name ''QElmerRenderer'') [Name ''design''] []),
     Assign (TAttr (path ''elmer_renderer'' [''gmsh'', ''options'', ''mesh'']) ''min_size'')
       (StrLit ''5um''),
     Assign (TAttr (path ''elmer_renderer'' [''gmsh'', ''options'', ''mesh'']) ''max_size'')
       (StrLit ''50um'')]\<rparr>"

definition cell_e7c297c2 :: cell where
  "cell_e7c297c2 = \<lparr>cell_id = ''e7c297c2-be7e-495b-b98a-4062cab91be0'', source =
    [ExprStmt (Call (path ''elmer_renderer'' [''render_design'']) []
       [Kw ''open_pins''
          (ListE [TupleE [StrLit ''Q1'', StrLit ''coupler1''],
                  TupleE [StrLit ''Q1'', StrLit ''coupler2''],
                  TupleE [StrLit ''Q1'', StrLit ''readout'']]),
        Kw ''skip_junctions'' (BoolLit True)])]\<rparr>"

definition cell_43145408 :: cell where
  "cell_43145408 = \<lparr>cell_id = ''43145408-a90f-4e75-921d-ca8eafd5ea7e'', source =
    [ExprStmt (Call (path ''elmer_renderer'' [''launch_gmsh_gui'']) [] [])]\<rparr>"

definition cell_ab7e7c7a :: cell where
  "cell_ab7e7c7a = \<lparr>cell_id = ''ab7e7c7a-9207-4943-bf0f-1d183a8d007c'', source =
    [ExprStmt (Call (path ''elmer_renderer'' [''export_mesh'']) [] [])]\<rparr>"

definition cell_5cc8b22f :: cell where
  "cell_5cc8b22f = \<lparr>cell_id = ''5cc8b22f-f281-45c3-a53a-f2a7c9a29fed'', source =
    [ExprStmt (Call (path ''elmer_renderer'' [''add_solution_setup'']) [StrLit ''capacitance''] [])]\<rparr>"

definition cell_020dc57e :: cell where
  "cell_020dc57e = \<lparr>cell_id = ''020dc57e-d668-4d7b-b8fc-62fcceb6468d'', source =
    [ExprStmt (Call (path ''elmer_renderer'' [''run'']) [StrLit ''capacitance''] [])]\<rparr>"

definition cell_b250b918 :: cell where
  "cell_b250b918 = \<lparr>cell_id = ''b250b918-1cd7-429d-b015-92b114bf2594'', source =
    [ExprStmt (path ''elmer_renderer'' [''capacitance_matrix''])]\<rparr>"

definition cell_07625769 :: cell where
  "cell_07625769 = \<lparr>cell_id = ''07625769-38c4-4be7-9c64-9e4e7b993506'', source =
    [ExprStmt (Call (path ''elmer_renderer'' [''display_post_processing_data'']) [] [])]\<rparr>"

definition cell_ca5cf807 :: cell where
  "cell_ca5cf807 = \<lparr>cell_id = ''ca5cf807-4323-48d8-b6cd-f5e38f3b24d3'', source =
    [ExprStmt (Call (path ''elmer_renderer'' [''save_capacitance_matrix''])
       [StrLit ''cap_matrix.txt''] []),
     ExprStmt (Call (path ''elmer_renderer'' [''close'']) [] [])]\<rparr>"

definition cell_b20674ae :: cell where
  "cell_b20674ae = \<lparr>cell_id = ''b20674ae-918f-4aa7-b4f7-1a337ae714a5'', source =
    [Magic ''%metal_heading 4. Perform LOM 2.0 Analysis'']\<rparr>"

definition cell_603f8d95 :: cell where
  "cell_603f8d95 = \<lparr>cell_id = ''603f8d95-ac34-40e0-9574-53d0f6cde2b8'', source =
    [Import ''numpy'' (Some ''np''),
     ImportFrom ''qiskit_metal.analyses.quantization.lom_core_analysis''
       [(''CompositeSystem'', None), (''Cell'', None), (''Subsystem'', None)],
     ImportFrom ''scipy.constants'' [(''speed_of_light'', Some ''c_light'')],
     Import ''matplotlib.pyplot'' (Some ''plt''),
     Magic ''%matplotlib inline'']\<rparr>"

definition cell_cf3df357 :: cell where
  "cell_cf3df357 = \<lparr>cell_id = ''cf3df357-f1fe-4bd0-9510-02fd7e2a55bf'', source =
    [Assign (TName ''cap_matrix'')
       (Call (Name ''load_capacitance_matrix_from_file'') [StrLit ''cap_matrix.txt''] [])]\<rparr>"

definition cell_9705e531 :: cell where
  "cell_9705e531 = \<lparr>cell_id = ''9705e531-ef68-4b6b-bbc6-6a8b69ba0a12'', source =
    [Assign (TName ''opt1'')
       (Call (Name ''dict'') []
          [Kw ''node_rename''
             (DictE [(StrLit ''Q1_coupler1_connector_pad'', StrLit ''coupler1''),
                     (StrLit ''Q1_coupler2_connector_pad'', StrLit ''coupler2''),
                     (StrLit ''Q1_readout_connector_pad'', StrLit ''readout'')]),
           Kw ''cap_mat'' (Name ''cap_matrix''),
           Kw ''ind_dict''
             (DictE [(TupleE [StrLit ''Q1_pad_top'', StrLit ''Q1_pad_bot''], IntLit 12)]),
           Kw ''jj_dict''
             (DictE [(TupleE [StrLit ''Q1_pad_top'', StrLit ''Q1_pad_bot''], StrLit ''j1'')]),
           Kw ''cj_dict''
             (DictE [(TupleE [StrLit ''Q1_pad_top'', StrLit ''Q1_pad_bot''], IntLit 2)])]),
     Assign (TName ''cell_1'') (Call (Name ''Cell'') [Name ''opt1''] [])]\<rparr>"

definition cell_d5c8c296 :: cell where
  "cell_d5c8c296 = \<lparr>cell_id = ''d5c8c296-13f9-4ec9-8daf-96f2f882b923'', source =
    [Assign (TName ''transmon'')
       (Call (Name ''Subsystem'') []
          [Kw ''name'' (StrLit ''transmon1_sys''), Kw ''sys_type'' (StrLit ''TRANSMON''),
           Kw ''nodes'' (ListE [StrLit ''j1''])]),
     Assign (TName ''q_opts'')
       (Call (Name ''dict'') []
          [Kw ''f_res'' (FloatLit ''7.4''), Kw ''Z0'' (IntLit 50),
           Kw ''vp'' (BinOp (FloatLit ''0.404314'') MultOp (Name ''c_light''))]),
     Assign (TName ''coup1'')
       (Call (Name ''Subsystem'') []
          [Kw ''name'' (StrLit ''coup1_sys''), Kw ''sys_type'' (StrLit ''TL_RESONATOR''),
           Kw ''nodes'' (ListE [StrLit ''coupler1'']), Kw ''q_opts'' (Name ''q_opts'')]),
     Assign (TName ''q_opts'')
       (Call (Name ''dict'') []
          [Kw ''f_res'' (FloatLit ''7.2''), Kw ''Z0'' (IntLit 50),
           Kw ''vp'' (BinOp (FloatLit ''0.404314'') MultOp (Name ''c_light''))]),
     Assign (TName ''coup2'')
       (Call (Name ''Subsystem'') []
          [Kw ''name'' (StrLit ''coup2_sys''), Kw ''sys_type'' (StrLit ''TL_RESONATOR''),
           Kw ''nodes'' (ListE [StrLit ''coupler2'']), Kw ''q_opts'' (Name ''q_opts'')]),
     Assign (TName ''q_opts'')
       (Call (Name ''dict'') []
          [Kw ''f_res'' (IntLit 7), Kw ''Z0'' (IntLit 50),
           Kw ''vp'' (BinOp (FloatLit ''0.404314'') MultOp (Name ''c_light''))]),
     Assign (TName ''readout'')
       (Call (Name ''Subsystem'') []
          [Kw ''name'' (StrLit ''readout_sys''), Kw ''sys_type'' (StrLit ''TL_RESONATOR''),
           Kw ''nodes'' (ListE [StrLit ''readout'']), Kw ''q_opts'' (Name ''q_opts'')])]\<rparr>"

definition cell_4f44c894 :: cell where
  "cell_4f44c894 = \<lparr>cell_id = ''4f44c894-aa2b-4632-b513-da391f101b93'', source =
    [Assign (TName ''composite_sys'')
       (Call (Name ''CompositeSystem'') []
          [Kw ''subsystems''
             (ListE [Name ''transmon'', Name ''coup1'', Name ''coup2'', Name ''readout'']),
           Kw ''cells'' (ListE [Name ''cell_1'']),
           Kw ''grd_node'' (StrLit ''ground_plane''),
           Kw ''nodes_force_keep''
             (ListE [StrLit ''coupler1'', StrLit ''coupler2'', StrLit ''readout''])])]\<rparr>"

definition cell_86f39d01 :: cell where
  "cell_86f39d01 = \<lparr>cell_id = ''86f39d01-c88f-4300-987f-0384703daf61'', source =
    [Assign (TName ''cg'') (Call (path ''composite_sys'' [''circuitGraph'']) [] []),
     ExprStmt (Call (Name ''print'') [Name ''cg''] [])]\<rparr>"

definition cell_19fee4da :: cell where
  "cell_19fee4da = \<lparr>cell_id = ''19fee4da-5659-4b3b-ad29-182565ee8933'', source =
    [Assign (TName ''hilbertspace'') (Call (path ''composite_sys'' [''create_hilbertspace'']) [] []),
     ExprStmt (Call (Name ''print'') [Name ''hilbertspace''] [])]\<rparr>"

definition cell_c18d596f :: cell where
  "cell_c18d596f = \<lparr>cell_id = ''c18d596f-1778-4bf1-852c-6a3c7c8dc927'', source =
    [Assign (TName ''hilbertspace'') (Call (path ''composite_sys'' [''add_interaction'']) [] []),
     ExprStmt (Call (path ''hilbertspace'' [''hamiltonian'']) [] [])]\<rparr>"

definition cell_b4c2cdfb :: cell where
  "cell_b4c2cdfb = \<lparr>cell_id = ''b4c2cdfb-6ede-46eb-bbaf-c19f75b9a5d5'', source =
    [Assign (TName ''hamiltonian_results'')
       (Call (path ''composite_sys'' [''hamiltonian_results'']) [Name ''hilbertspace'']
          [Kw ''evals_count'' (IntLit 30)])]\<rparr>"

definition cell_8c01e33b :: cell where
  "cell_8c01e33b = \<lparr>cell_id = ''8c01e33b-c8fa-464a-bd02-fa8e87f48b5a'', source =
    [Assign (TName ''chi_df'')
       (Call (Attr (Subscr (Name ''hamiltonian_results'') (StrLit ''chi_in_MHz'')) ''to_dataframe'')
          [] []),
     ExprStmt (Call (Name ''print'')
       [StrLit ''Transmon frequency     :'',
        Subscr (Subscr (Name ''hamiltonian_results'') (StrLit ''fQ_in_Ghz''))
          (StrLit ''transmon1_sys''),
        StrLit ''GHz''] []),
     ExprStmt (Call (Name ''print'')
       [StrLit ''Transmon Anharmonicity :'',
        Subscr (Subscr (Name ''chi_df'') (StrLit ''transmon1_sys'')) (StrLit ''transmon1_sys''),
        StrLit ''MHz''] []),
     ExprStmt (Call (Name ''print'')
       [StrLit ''Readou chi             :'',
        Subscr (Subscr (Name ''chi_df'') (StrLit ''readout_sys'')) (StrLit ''transmon1_sys''),
        StrLit ''MHz''] [])]\<rparr>"

definition cell_afdfe557 :: cell where
  "cell_afdfe557 = \<lparr>cell_id = ''afdfe557-8d48-4a18-85bf-923aa2b63c07'', source =
    [ExprStmt (Call (Attr (Call (path ''composite_sys'' [''compute_gs'']) [] []) ''to_dataframe'')
       [] [])]\<rparr>"

definition cell_963212c4 :: cell where
  "cell_963212c4 = \<lparr>cell_id = ''963212c4-b31f-48c0-ac56-0058e477b9e0'', source =
    [ExprStmt (path ''transmon'' [''h_params''])]\<rparr>"

definition cell_44627014 :: cell where
  "cell_44627014 = \<lparr>cell_id = ''44627014-50d7-4f5c-b873-c7c438d6c6da'', source =
    [ExprStmt (Call (path ''gui'' [''main_window'', ''close'']) [] [])]\<rparr>"

definition cell_9c3428fa :: cell where
  "cell_9c3428fa = \<lparr>cell_id = ''9c3428fa-7009-451d-9032-a54ecf888791'', source = []\<rparr>"

definition elmer_notebook :: notebook where
  "elmer_notebook =
    [cell_28f8c32e, cell_a76242c0, cell_31a7b793, cell_6fe517d6, cell_d97e061c, cell_713202e1,
     cell_eef5a352, cell_545d393c, cell_b851f19f, cell_4b02fbf9, cell_af6556de, cell_3672846f,
     cell_88883f88, cell_8c2f7a6a, cell_e7c297c2, cell_43145408, cell_ab7e7c7a, cell_5cc8b22f,
     cell_020dc57e, cell_b250b918, cell_07625769, cell_ca5cf807, cell_b20674ae, cell_603f8d95,
     cell_cf3df357, cell_9705e531, cell_d5c8c296, cell_4f44c894, cell_86f39d01, cell_19fee4da,
     cell_c18d596f, cell_b4c2cdfb, cell_8c01e33b, cell_afdfe557, cell_963212c4, cell_44627014,
     cell_9c3428fa]"

section \<open>The notebook "FlipChip_designtutorial"\<close>

definition cell_0d41a1db :: cell where
  "cell_0d41a1db = \<lparr>cell_id = ''0d41a1db'', source =
    [Magic ''%reload_ext autoreload'',
     Magic ''%autoreload 2'']\<rparr>"

definition cell_1c02013c :: cell where
  "cell_1c02013c = \<lparr>cell_id = ''1c02013c'', source =
    [Import ''qiskit_metal'' (Some ''metal''),
     ImportFrom ''qiskit_metal'' [(''designs'', None), (''draw'', None)],
     ImportFrom ''qiskit_metal'' [(''MetalGUI'', None), (''Dict'', None), (''Headings'', None)],
     ImportFrom ''qiskit_metal.qlibrary.qubits.transmon_cross'' [(''TransmonCross'', None)],
     ImportFrom ''qiskit_metal.qlibrary.resonators.readoutres_fc'' [(''ReadoutResFC'', None)],
     Import ''warnings'' None,
     ExprStmt (Call (path ''warnings'' [''filterwarnings'']) [StrLit ''ignore'']
       [Kw ''category'' (Name ''Warning'')])]\<rparr>"

definition cell_88f78db4 :: cell where
  "cell_88f78db4 = \<lparr>cell_id = ''88f78db4'', source =
    [Assign (TName ''design'') (Call (path ''designs'' [''DesignFlipChip'']) [] []),
     Assign (TSubscr (path ''design'' [''metadata'']) (StrLit ''design_name''))
       (StrLit ''FlipChip_Device''),
     Assign (TName ''gui'') (Call (Name ''MetalGUI'') [Name ''design''] []),
     Assign (TAttr (Name ''design'') ''overwrite_enabled'') (BoolLit True)]\<rparr>"

definition cell_1a4c6ad6 :: cell where
  "cell_1a4c6ad6 = \<lparr>cell_id = ''1a4c6ad6'', source =
    [ExprStmt (Call (path ''design'' [''delete_all_components'']) [] []),
     Assign (TName ''options_cpads'')
       (Call (Name ''Dict'') []
          [Kw ''connector_type'' (StrLit ''0''),
           Kw ''claw_length'' (StrLit ''30um''),
           Kw ''ground_spacing'' (StrLit ''5um''),
           Kw ''claw_width'' (StrLit ''10um''),
           Kw ''claw_gap'' (StrLit ''6um'')]),
     Assign (TName ''options'')
       (Call (Name ''Dict'') []
          [Kw ''chip'' (StrLit ''Q_chip''),
           Kw ''cross_width'' (StrLit ''20um''),
           Kw ''cross_length'' (StrLit ''150um''),
           Kw ''cross_gap'' (StrLit ''20um''),
           Kw ''connection_pads''
             (Call (Name ''Dict'') []
                [Kw ''claw_west''
                   (Call (Name ''Dict'') []
                      [Kw ''connector_location'' (StrLit ''180''),
                       StarStar (Name ''options_cpads'')])])]),
     Assign (TName ''q1_x'') (StrLit ''0.0 mm''),
     Assign (TName ''q1_y'') (StrLit ''0.0 mm''),
     Assign (TName ''q1'')
       (Call (Name ''TransmonCross'') [Name ''design'', StrLit ''Q1'']
          [Kw ''options''
             (Call (Name ''Dict'') []
                [Kw ''pos_x'' (Name ''q1_x''), Kw ''pos_y'' (Name ''q1_y''),
                 StarStar (Name ''options'')])]),
     ExprStmt (Call (path ''gui'' [''rebuild'']) [] []),
     ExprStmt (Call (path ''gui'' [''autoscale'']) [] [])]\<rparr>"

definition cell_ddbc50d8 :: cell where
  "cell_ddbc50d8 = \<lparr>cell_id = ''ddbc50d8'', source =
    [Assign (TName ''options'')
       (Call (Name ''Dict'') []
          [Kw ''chip'' (StrLit ''C_chip''),
           Kw ''readout_radius'' (StrLit ''20 um''),
           Kw ''readout_cpw_width'' (StrLit ''10 um''),
           Kw ''readout_cpw_gap'' (StrLit ''10 um''),
           Kw ''readout_cpw_turnradius'' (StrLit ''50 um''),
           Kw ''readout_l1'' (StrLit ''600 um''),
           Kw ''readout_l2'' (StrLit ''200 um''),
           Kw ''readout_l3'' (StrLit ''300 um''),
           Kw ''readout_l4'' (StrLit ''150 um''),
           Kw ''readout_l5'' (StrLit ''550 um''),
           Kw ''arc_step'' (StrLit ''5 um'')]),
     Assign (TName ''r1'')
       (Call (Name ''ReadoutResFC'') [Name ''design'', StrLit ''R1'']
          [Kw ''options''
             (Call (Name ''Dict'') []
                [Kw ''pos_x'' (Name ''q1_x''), Kw ''pos_y'' (Name ''q1_y''),
                 StarStar (Name ''options'')])]),
     ExprStmt (Call (path ''gui'' [''rebuild'']) [] []),
     ExprStmt (Call (path ''gui'' [''autoscale'']) [] [])]\<rparr>"

definition cell_b35cb7f9 :: cell where
  "cell_b35cb7f9 = \<lparr>cell_id = ''b35cb7f9'', source =
    [ExprStmt (path ''design'' [''chips''])]\<rparr>"

definition cell_f566f85f :: cell where
  "cell_f566f85f = \<lparr>cell_id = ''f566f85f'', source =
    [ExprStmt (Subscr (Subscr (Subscr (path ''design'' [''chips'']) (StrLit ''C_chip''))
       (StrLit ''size'')) (StrLit ''center_z''))]\<rparr>"

definition cell_9007cb94 :: cell where
  "cell_9007cb94 = \<lparr>cell_id = ''9007cb94'', source =
    [ExprStmt (Subscr (Subscr (Subscr (path ''design'' [''chips'']) (StrLit ''Q_chip''))
       (StrLit ''size'')) (StrLit ''center_z''))]\<rparr>"

definition cell_dd6060f0 :: cell where
  "cell_dd6060f0 = \<lparr>cell_id = ''dd6060f0'', source =
    [Assign (TSubscr (Subscr (Subscr (path ''design'' [''chips'']) (StrLit ''Q_chip''))
               (StrLit ''size'')) (StrLit ''center_z''))
       (StrLit ''10 um''),
     ExprStmt (Subscr (Subscr (Subscr (path ''design'' [''chips'']) (StrLit ''Q_chip''))
       (StrLit ''size'')) (StrLit ''center_z''))]\<rparr>"

definition cell_025e0bfa :: cell where
  "cell_025e0bfa = \<lparr>cell_id = ''025e0bfa'', source =
    [Assign (TName ''newMaterial_name'') (StrLit ''Si_11.45''),
     Assign (TName ''newMaterial_permittivity'') (StrLit ''11.45''),
     Assign (TName ''newMaterial_losstangent'') (StrLit ''1e-7'')]\<rparr>"

definition cell_6eb99015 :: cell where
  "cell_6eb99015 = \<lparr>cell_id = ''6eb99015'', source =
    [ImportFrom ''pyEPR'' [(''ansys'', None), (''project_info'', None)],
     Assign (TName ''ans_prj'') (Call (path ''project_info'' [''ProjectInfo'']) [] []),
     Assign (TName ''oProject'') (path ''ans_prj'' [''project'', ''_project'']),
     Assign (TName ''defmanager'') (Call (path ''oProject'' [''GetDefinitionManager'']) [] []),
     IfS (NotE (Call (path ''defmanager'' [''DoesMaterialExist'']) [Name ''newMaterial_name''] []))
       [ExprStmt (Call (path ''defmanager'' [''AddMaterial''])
          [ListE
             [BinOp (StrLit ''NAME:%s'') ModOp (Name ''newMaterial_name''),
              StrLit ''CoordinateSystemType:='', StrLit ''Cartesian'',
              StrLit ''BulkOrSurfaceType:='', IntLit 1,
              ListE [StrLit ''NAME:PhysicsTypes'', StrLit ''set:='',
                     ListE [StrLit ''Electromagnetic'']],
              StrLit ''permittivity:='',
              BinOp (StrLit ''%s'') ModOp (Name ''newMaterial_permittivity''),
              StrLit ''dielectric_loss_tangent:='',
              BinOp (StrLit ''%s'') ModOp (Name ''newMaterial_losstangent'')]] [])]
       [],
     ExprStmt (Call (path ''ans_prj'' [''project'', ''release'']) [] []),
     ExprStmt (Call (path ''ans_prj'' [''desktop'', ''release'']) [] []),
     ExprStmt (Call (path ''ans_prj'' [''app'', ''release'']) [] []),
     ExprStmt (Call (path ''ansys'' [''release'']) [] [])]\<rparr>"

definition cell_1b1af6d6 :: cell where
  "cell_1b1af6d6 = \<lparr>cell_id = ''1b1af6d6'', source =
    [Assign (TSubscr (Subscr (path ''design'' [''chips'']) (StrLit ''C_chip'')) (StrLit ''material''))
       (Name ''newMaterial_name''),
     Assign (TSubscr (Subscr (path ''design'' [''chips'']) (StrLit ''Q_chip'')) (StrLit ''material''))
       (Name ''newMaterial_name'')]\<rparr>"

definition cell_548873c3 :: cell where
  "cell_548873c3 = \<lparr>cell_id = ''548873c3'', source =
    [ImportFrom ''qiskit_metal.analyses.quantization'' [(''EPRanalysis'', None)],
     Assign (TName ''eig_fc'') (Call (Name ''EPRanalysis'') [Name ''design'', StrLit ''hfss''] []),
     ExprStmt (path ''eig_fc'' [''sim'', ''setup''])]\<rparr>"

definition cell_ac123d75 :: cell where
  "cell_ac123d75 = \<lparr>cell_id = ''ac123d75'', source =
    [Assign (TAttr (path ''eig_fc'' [''sim'', ''setup'']) ''max_passes'') (IntLit 20),
     Assign (TAttr (path ''eig_fc'' [''sim'', ''setup'', ''vars'']) ''Lj'') (StrLit ''10 nH''),
     Assign (TAttr (path ''eig_fc'' [''sim'', ''setup'']) ''n_modes'') (IntLit 2),
     Assign (TAttr (path ''eig_fc'' [''sim'', ''setup'']) ''max_delta_f'') (IntLit 1),
     Assign (TAttr (path ''eig_fc'' [''sim'', ''setup'']) ''min_freq_ghz'') (FloatLit ''1.5''),
     Assign (TAttr (path ''eig_fc'' [''setup'', ''junctions'', ''jj'']) ''rect'')
       (StrLit ''JJ_rect_Lj_Q1_rect_jj''),
     Assign (TAttr (path ''eig_fc'' [''setup'', ''junctions'', ''jj'']) ''line'')
       (StrLit ''JJ_Lj_Q1_rect_jj_''),
     ExprStmt (path ''eig_fc'' [''sim'', ''setup''])]\<rparr>"

definition cell_491db648 :: cell where
  "cell_491db648 = \<lparr>cell_id = ''491db648'', source =
    [ExprStmt (Call (path ''eig_fc'' [''sim'', ''run'']) []
       [Kw ''name'' (StrLit ''qubitres''),
        Kw ''components'' (ListE [StrLit ''Q1'', StrLit ''R1'']),
        Kw ''open_terminations'' (ListE []),
        Kw ''box_plus_buffer'' (BoolLit True)])]\<rparr>"

definition cell_b973d2bc :: cell where
  "cell_b973d2bc = \<lparr>cell_id = ''b973d2bc'', source =
    [Assign (TAttr (path ''eig_fc'' [''setup'', ''dissipatives'']) ''dielectrics_bulk'')
       (ListE [StrLit ''Q_chip'', StrLit ''C_chip'']),
     ExprStmt (Call (path ''eig_fc'' [''run_epr'']) [] [])]\<rparr>"

definition cell_6f56cc50 :: cell where
  "cell_6f56cc50 = \<lparr>cell_id = ''6f56cc50'', source =
    [ExprStmt (Call (path ''eig_fc'' [''sim'', ''close'']) [] [])]\<rparr>"

definition flipchip_notebook :: notebook where
  "flipchip_notebook =
    [cell_0d41a1db, cell_1c02013c, cell_88f78db4, cell_1a4c6ad6, cell_ddbc50d8, cell_b35cb7f9,
     cell_f566f85f, cell_9007cb94, cell_dd6060f0, cell_025e0bfa, cell_6eb99015, cell_1b1af6d6,
     cell_548873c3, cell_ac123d75, cell_491db648, cell_b973d2bc, cell_6f56cc50]"

section \<open>Runs in which no external operation raises\<close>

text \<open>
  The operations such a run of the ElmerFEM notebook attempts, in order; operation
  \<open>k\<close> of the list returns \<open>VExt k\<close>. That every such run has this trace is
  lemma \<open>elmer_run\<close> below.
\<close>

definition elmer_trace :: "event list" where
  "elmer_trace =
    [EMagic ''%load_ext autoreload'',
     EMagic ''%autoreload 2'',
     EImport ''qiskit_metal'' [''MetalGUI'', ''designs''],
     EImport ''qiskit_metal.qlibrary.qubits.transmon_pocket_6'' [''TransmonPocket6''],
     EImport ''qiskit_metal.renderers.renderer_gmsh.gmsh_renderer'' [''QGmshRenderer''],
     EImport ''qiskit_metal.renderers.renderer_elmer.elmer_renderer'' [''QElmerRenderer''],
     EImport ''qiskit_metal.renderers.renderer_elmer.elmer_renderer''
       [''load_capacitance_matrix_from_file''],
     EMagic ''%metal_heading 1. Create a Transmon Qubit in Qiskit Metal'',
     ECall (VAttr (VAttr (VLib ''qiskit_metal'') ''designs'') ''MultiPlanar'') [VDict [], VBool
       True] [],
     ECall (VAttr (VLib ''qiskit_metal'') ''MetalGUI'') [VExt 8] [],
     ECall (VAttr (VLib ''qiskit_metal.qlibrary.qubits.transmon_pocket_6'')
       ''TransmonPocket6'') [VExt 8, VStr ''Q1''] [(''options'', VDict [(VStr
       ''connection_pads'', VDict [(VStr ''readout'', VDict [(VStr ''loc_W'', VInt 0), (VStr
       ''loc_H'', VInt (- 1))]), (VStr ''coupler1'', VDict [(VStr ''loc_W'', VInt (- 1)), (VStr
       ''loc_H'', VInt 1)]), (VStr ''coupler2'', VDict [(VStr ''loc_W'', VInt 1), (VStr
       ''loc_H'', VInt 1)])])])],
     ECall (VAttr (VExt 9) ''rebuild'') [] [],
     ECall (VAttr (VExt 9) ''autoscale'') [] [],
     EMagic ''%metal_heading 2. Rendering and meshing your design in the `QGmshRenderer`'',
     ECall (VAttr (VLib ''qiskit_metal.renderers.renderer_gmsh.gmsh_renderer'')
       ''QGmshRenderer'') [VExt 8] [],
     ECall (VAttr (VExt 14) ''render_design'') [] [(''open_pins'', VList [VTuple [VStr ''Q1'',
       VStr ''coupler1''], VTuple [VStr ''Q1'', VStr ''coupler2''], VTuple [VStr ''Q1'', VStr
       ''readout'']]), (''mesh_geoms'', VBool False)],
     ECall (VAttr (VExt 14) ''launch_gui'') [] [],
     ECall (VAttr (VExt 14) ''add_mesh'') [] [(''dim'', VInt 3), (''intelli_mesh'', VBool
       False)],
     ECall (VAttr (VExt 14) ''launch_gui'') [] [],
     ESet (VAttr (VAttr (VAttr (VExt 14) ''options'') ''mesh'') ''min_size'') (VStr ''5um''),
     ESet (VAttr (VAttr (VAttr (VExt 14) ''options'') ''mesh'') ''max_size'') (VStr ''20um''),
     ECall (VAttr (VExt 14) ''render_design'') [] [(''open_pins'', VList [VTuple [VStr ''Q1'',
       VStr ''coupler1''], VTuple [VStr ''Q1'', VStr ''coupler2''], VTuple [VStr ''Q1'', VStr
       ''readout'']]), (''mesh_geoms'', VBool False)],
     ECall (VAttr (VExt 14) ''add_mesh'') [] [(''intelli_mesh'', VBool False)],
     ECall (VAttr (VExt 14) ''launch_gui'') [] [],
     ESet (VAttr (VAttr (VAttr (VExt 14) ''options'') ''mesh'') ''min_size'') (VStr ''5um''),
     ESet (VAttr (VAttr (VAttr (VExt 14) ''options'') ''mesh'') ''max_size'') (VStr ''50um''),
     ECall (VAttr (VExt 14) ''render_design'') [] [(''open_pins'', VList [VTuple [VStr ''Q1'',
       VStr ''coupler1''], VTuple [VStr ''Q1'', VStr ''coupler2''], VTuple [VStr ''Q1'', VStr
       ''readout'']]), (''mesh_geoms'', VBool True)],
     ECall (VAttr (VExt 14) ''launch_gui'') [] [],
     ECall (VAttr (VExt 14) ''export_mesh'') [VStr ''test.msh''] [],
     ECall (VAttr (VExt 14) ''close'') [] [],
     EMagic
       ''%metal_heading 3. Rendering your design in `QElmerRenderer` (uses `QGmshRenderer`)'',
     ECall (VAttr (VLib ''qiskit_metal.renderers.renderer_elmer.elmer_renderer'')
       ''QElmerRenderer'') [VExt 8] [],
     ESet (VAttr (VAttr (VAttr (VAttr (VExt 31) ''gmsh'') ''options'') ''mesh'') ''min_size'')
       (VStr ''5um''),
     ESet (VAttr (VAttr (VAttr (VAttr (VExt 31) ''gmsh'') ''options'') ''mesh'') ''max_size'')
       (VStr ''50um''),
     ECall (VAttr (VExt 31) ''render_design'') [] [(''open_pins'', VList [VTuple [VStr ''Q1'',
       VStr ''coupler1''], VTuple [VStr ''Q1'', VStr ''coupler2''], VTuple [VStr ''Q1'', VStr
       ''readout'']]), (''skip_junctions'', VBool True)],
     ECall (VAttr (VExt 31) ''launch_gmsh_gui'') [] [],
     ECall (VAttr (VExt 31) ''export_mesh'') [] [],
     ECall (VAttr (VExt 31) ''add_solution_setup'') [VStr ''capacitance''] [],
     ECall (VAttr (VExt 31) ''run'') [VStr ''capacitance''] [],
     ECall (VAttr (VExt 31) ''display_post_processing_data'') [] [],
     ECall (VAttr (VExt 31) ''save_capacitance_matrix'') [VStr ''cap_matrix.txt''] [],
     ECall (VAttr (VExt 31) ''close'') [] [],
     EMagic ''%metal_heading 4. Perform LOM 2.0 Analysis'',
     EImport ''numpy'' [],
     EImport ''qiskit_metal.analyses.quantization.lom_core_analysis'' [''CompositeSystem'',
       ''Cell'', ''Subsystem''],
     EImport ''scipy.constants'' [''speed_of_light''],
     EImport ''matplotlib.pyplot'' [],
     EMagic ''%matplotlib inline'',
     ECall (VAttr (VLib ''qiskit_metal.renderers.renderer_elmer.elmer_renderer'')
       ''load_capacitance_matrix_from_file'') [VStr ''cap_matrix.txt''] [],
     ECall (VAttr (VLib ''qiskit_metal.analyses.quantization.lom_core_analysis'') ''Cell'')
       [VDict [(VStr ''node_rename'', VDict [(VStr ''Q1_coupler1_connector_pad'', VStr
       ''coupler1''), (VStr ''Q1_coupler2_connector_pad'', VStr ''coupler2''), (VStr
       ''Q1_readout_connector_pad'', VStr ''readout'')]), (VStr ''cap_mat'', VExt 48), (VStr
       ''ind_dict'', VDict [(VTuple [VStr ''Q1_pad_top'', VStr ''Q1_pad_bot''], VInt 12)]),
       (VStr ''jj_dict'', VDict [(VTuple [VStr ''Q1_pad_top'', VStr ''Q1_pad_bot''], VStr
       ''j1'')]), (VStr ''cj_dict'', VDict [(VTuple [VStr ''Q1_pad_top'', VStr ''Q1_pad_bot''],
       VInt 2)])]] [],
     ECall (VAttr (VLib ''qiskit_metal.analyses.quantization.lom_core_analysis'')
       ''Subsystem'') [] [(''name'', VStr ''transmon1_sys''), (''sys_type'', VStr
       ''TRANSMON''), (''nodes'', VList [VStr ''j1''])],
     ECall (VAttr (VLib ''qiskit_metal.analyses.quantization.lom_core_analysis'')
       ''Subsystem'') [] [(''name'', VStr ''coup1_sys''), (''sys_type'', VStr
       ''TL_RESONATOR''), (''nodes'', VList [VStr ''coupler1'']), (''q_opts'', VDict [(VStr
       ''f_res'', VFloat ''7.4''), (VStr ''Z0'', VInt 50), (VStr ''vp'', VBin MultOp (VFloat
       ''0.404314'') (VAttr (VLib ''scipy.constants'') ''speed_of_light''))])],
     ECall (VAttr (VLib ''qiskit_metal.analyses.quantization.lom_core_analysis'')
       ''Subsystem'') [] [(''name'', VStr ''coup2_sys''), (''sys_type'', VStr
       ''TL_RESONATOR''), (''nodes'', VList [VStr ''coupler2'']), (''q_opts'', VDict [(VStr
       ''f_res'', VFloat ''7.2''), (VStr ''Z0'', VInt 50), (VStr ''vp'', VBin MultOp (VFloat
       ''0.404314'') (VAttr (VLib ''scipy.constants'') ''speed_of_light''))])],
     ECall (VAttr (VLib ''qiskit_metal.analyses.quantization.lom_core_analysis'')
       ''Subsystem'') [] [(''name'', VStr ''readout_sys''), (''sys_type'', VStr
       ''TL_RESONATOR''), (''nodes'', VList [VStr ''readout'']), (''q_opts'', VDict [(VStr
       ''f_res'', VInt 7), (VStr ''Z0'', VInt 50), (VStr ''vp'', VBin MultOp (VFloat
       ''0.404314'') (VAttr (VLib ''scipy.constants'') ''speed_of_light''))])],
     ECall (VAttr (VLib ''qiskit_metal.analyses.quantization.lom_core_analysis'')
       ''CompositeSystem'') [] [(''subsystems'', VList [VExt 50, VExt 51, VExt 52, VExt 53]),
       (''cells'', VList [VExt 49]), (''grd_node'', VStr ''ground_plane''),
       (''nodes_force_keep'', VList [VStr ''coupler1'', VStr ''coupler2'', VStr ''readout''])],
     ECall (VAttr (VExt 54) ''circuitGraph'') [] [],
     ECall (VBuiltin ''print'') [VExt 55] [],
     ECall (VAttr (VExt 54) ''create_hilbertspace'') [] [],
     ECall (VBuiltin ''print'') [VExt 57] [],
     ECall (VAttr (VExt 54) ''add_interaction'') [] [],
     ECall (VAttr (VExt 59) ''hamiltonian'') [] [],
     ECall (VAttr (VExt 54) ''hamiltonian_results'') [VExt 59] [(''evals_count'', VInt 30)],
     ECall (VAttr (VItem (VExt 61) (VStr ''chi_in_MHz'')) ''to_dataframe'') [] [],
     ECall (VBuiltin ''print'') [VStr ''Transmon frequency     :'', VItem (VItem (VExt 61)
       (VStr ''fQ_in_Ghz'')) (VStr ''transmon1_sys''), VStr ''GHz''] [],
     ECall (VBuiltin ''print'') [VStr ''Transmon Anharmonicity :'', VItem (VItem (VExt 62)
       (VStr ''transmon1_sys'')) (VStr ''transmon1_sys''), VStr ''MHz''] [],
     ECall (VBuiltin ''print'') [VStr ''Readou chi             :'', VItem (VItem (VExt 62)
       (VStr ''readout_sys'')) (VStr ''transmon1_sys''), VStr ''MHz''] [],
     ECall (VAttr (VExt 54) ''compute_gs'') [] [],
     ECall (VAttr (VExt 66) ''to_dataframe'') [] [],
     ECall (VAttr (VAttr (VExt 9) ''main_window'') ''close'') [] []]"

text \<open>
  The FlipChip notebook: the operations up to the query \<open>DoesMaterialExist\<close> (operation
  31), the call of \<open>AddMaterial\<close> that follows when the query's result is false, and
  the operations after the \<open>if\<close>, where \<open>e\<close> is the number of the operation that
  builds \<open>eig_fc\<close> (39, or 40 after an \<open>AddMaterial\<close>).
\<close>

definition flipchip_setup :: "event list" where
  "flipchip_setup =
    [EMagic ''%reload_ext autoreload'',
     EMagic ''%autoreload 2'',
     EImport ''qiskit_metal'' [],
     EImport ''qiskit_metal'' [''designs'', ''draw''],
     EImport ''qiskit_metal'' [''MetalGUI'', ''Dict'', ''Headings''],
     EImport ''qiskit_metal.qlibrary.qubits.transmon_cross'' [''TransmonCross''],
     EImport ''qiskit_metal.qlibrary.resonators.readoutres_fc'' [''ReadoutResFC''],
     EImport ''warnings'' [],
     ECall (VAttr (VLib ''warnings'') ''filterwarnings'') [VStr ''ignore''] [(''category'',
       VBuiltin ''Warning'')],
     ECall (VAttr (VAttr (VLib ''qiskit_metal'') ''designs'') ''DesignFlipChip'') [] [],
     ESet (VItem (VAttr (VExt 9) ''metadata'') (VStr ''design_name'')) (VStr
       ''FlipChip_Device''),
     ECall (VAttr (VLib ''qiskit_metal'') ''MetalGUI'') [VExt 9] [],
     ESet (VAttr (VExt 9) ''overwrite_enabled'') (VBool True),
     ECall (VAttr (VExt 9) ''delete_all_components'') [] [],
     ECall (VAttr (VLib ''qiskit_metal'') ''Dict'') [] [(''connector_type'', VStr ''0''),
       (''claw_length'', VStr ''30um''), (''ground_spacing'', VStr ''5um''), (''claw_width'',
       VStr ''10um''), (''claw_gap'', VStr ''6um'')],
     ECall (VAttr (VLib ''qiskit_metal'') ''Dict'') [] [(''connector_location'', VStr ''180''),
       (''**'', VExt 14)],
     ECall (VAttr (VLib ''qiskit_metal'') ''Dict'') [] [(''claw_west'', VExt 15)],
     ECall (VAttr (VLib ''qiskit_metal'') ''Dict'') [] [(''chip'', VStr ''Q_chip''),
       (''cross_width'', VStr ''20um''), (''cross_length'', VStr ''150um''), (''cross_gap'',
       VStr ''20um''), (''connection_pads'', VExt 16)],
     ECall (VAttr (VLib ''qiskit_metal'') ''Dict'') [] [(''pos_x'', VStr ''0.0 mm''),
       (''pos_y'', VStr ''0.0 mm''), (''**'', VExt 17)],
     ECall (VAttr (VLib ''qiskit_metal.qlibrary.qubits.transmon_cross'') ''TransmonCross'')
       [VExt 9, VStr ''Q1''] [(''options'', VExt 18)],
     ECall (VAttr (VExt 11) ''rebuild'') [] [],
     ECall (VAttr (VExt 11) ''autoscale'') [] [],
     ECall (VAttr (VLib ''qiskit_metal'') ''Dict'') [] [(''chip'', VStr ''C_chip''),
       (''readout_radius'', VStr ''20 um''), (''readout_cpw_width'', VStr ''10 um''),
       (''readout_cpw_gap'', VStr ''10 um''), (''readout_cpw_turnradius'', VStr ''50 um''),
       (''readout_l1'', VStr ''600 um''), (''readout_l2'', VStr ''200 um''), (''readout_l3'',
       VStr ''300 um''), (''readout_l4'', VStr ''150 um''), (''readout_l5'', VStr ''550 um''),
       (''arc_step'', VStr ''5 um'')],
     ECall (VAttr (VLib ''qiskit_metal'') ''Dict'') [] [(''pos_x'', VStr ''0.0 mm''),
       (''pos_y'', VStr ''0.0 mm''), (''**'', VExt 22)],
     ECall (VAttr (VLib ''qiskit_metal.qlibrary.resonators.readoutres_fc'') ''ReadoutResFC'')
       [VExt 9, VStr ''R1''] [(''options'', VExt 23)],
     ECall (VAttr (VExt 11) ''rebuild'') [] [],
     ECall (VAttr (VExt 11) ''autoscale'') [] [],
     ESet (VItem (VItem (VItem (VAttr (VExt 9) ''chips'') (VStr ''Q_chip'')) (VStr ''size''))
       (VStr ''center_z'')) (VStr ''10 um''),
     EImport ''pyEPR'' [''ansys'', ''project_info''],
     ECall (VAttr (VAttr (VLib ''pyEPR'') ''project_info'') ''ProjectInfo'') [] [],
     ECall (VAttr (VAttr (VAttr (VExt 29) ''project'') ''_project'') ''GetDefinitionManager'')
       [] [],
     ECall (VAttr (VExt 30) ''DoesMaterialExist'') [VStr ''Si_11.45''] []]"

definition add_material :: "event list" where
  "add_material =
    [ECall (VAttr (VExt 30) ''AddMaterial'') [VList [VStr ''NAME:Si_11.45'', VStr
       ''CoordinateSystemType:='', VStr ''Cartesian'', VStr ''BulkOrSurfaceType:='', VInt 1,
       VList [VStr ''NAME:PhysicsTypes'', VStr ''set:='', VList [VStr ''Electromagnetic'']],
       VStr ''permittivity:='', VStr ''11.45'', VStr ''dielectric_loss_tangent:='', VStr
       ''1e-7'']] []]"

definition flipchip_rest :: "nat \<Rightarrow> event list" where
  "flipchip_rest e =
    [ECall (VAttr (VAttr (VExt 29) ''project'') ''release'') [] [],
     ECall (VAttr (VAttr (VExt 29) ''desktop'') ''release'') [] [],
     ECall (VAttr (VAttr (VExt 29) ''app'') ''release'') [] [],
     ECall (VAttr (VAttr (VLib ''pyEPR'') ''ansys'') ''release'') [] [],
     ESet (VItem (VItem (VAttr (VExt 9) ''chips'') (VStr ''C_chip'')) (VStr ''material''))
       (VStr ''Si_11.45''),
     ESet (VItem (VItem (VAttr (VExt 9) ''chips'') (VStr ''Q_chip'')) (VStr ''material''))
       (VStr ''Si_11.45''),
     EImport ''qiskit_metal.analyses.quantization'' [''EPRanalysis''],
     ECall (VAttr (VLib ''qiskit_metal.analyses.quantization'') ''EPRanalysis'') [VExt 9, VStr
       ''hfss''] [],
     ESet (VAttr (VAttr (VAttr (VExt e) ''sim'') ''setup'') ''max_passes'') (VInt 20),
     ESet (VAttr (VAttr (VAttr (VAttr (VExt e) ''sim'') ''setup'') ''vars'') ''Lj'') (VStr
       ''10 nH''),
     ESet (VAttr (VAttr (VAttr (VExt e) ''sim'') ''setup'') ''n_modes'') (VInt 2),
     ESet (VAttr (VAttr (VAttr (VExt e) ''sim'') ''setup'') ''max_delta_f'') (VInt 1),
     ESet (VAttr (VAttr (VAttr (VExt e) ''sim'') ''setup'') ''min_freq_ghz'') (VFloat ''1.5''),
     ESet (VAttr (VAttr (VAttr (VAttr (VExt e) ''setup'') ''junctions'') ''jj'') ''rect'')
       (VStr ''JJ_rect_Lj_Q1_rect_jj''),
     ESet (VAttr (VAttr (VAttr (VAttr (VExt e) ''setup'') ''junctions'') ''jj'') ''line'')
       (VStr ''JJ_Lj_Q1_rect_jj_''),
     ECall (VAttr (VAttr (VExt e) ''sim'') ''run'') [] [(''name'', VStr ''qubitres''),
       (''components'', VList [VStr ''Q1'', VStr ''R1'']), (''open_terminations'', VList []),
       (''box_plus_buffer'', VBool True)],
     ESet (VAttr (VAttr (VAttr (VExt e) ''setup'') ''dissipatives'') ''dielectrics_bulk'')
       (VList [VStr ''Q_chip'', VStr ''C_chip'']),
     ECall (VAttr (VExt e) ''run_epr'') [] [],
     ECall (VAttr (VAttr (VExt e) ''sim'') ''close'') [] []]"

definition flipchip_trace :: "bool \<Rightarrow> event list" where
  "flipchip_trace material_exists =
     (if material_exists then flipchip_setup @ flipchip_rest 39
      else flipchip_setup @ add_material @ flipchip_rest 40)"

text \<open>
  The statements of a notebook in the order of the text, each by its position, with
  the body of every \<open>if\<close> when \<open>b\<close> holds and its \<open>else\<close> branch otherwise: each
  position once.
\<close>

function (sequential) stmt_order :: "bool \<Rightarrow> pos \<Rightarrow> stmt \<Rightarrow> pos list"
  and block_order :: "bool \<Rightarrow> pos \<Rightarrow> nat \<Rightarrow> stmt list \<Rightarrow> pos list"
where
  "stmt_order b p (IfS c body orelse) = p # block_order b p 0 (if b then body else orelse)"
| "stmt_order b p s = [p]"
| "block_order b p i [] = []"
| "block_order b p i (s # ss) = stmt_order b (p @ [i]) s @ block_order b p (i + 1) ss"
  by pat_completeness auto
termination
  by (relation "measure (\<lambda>a. case a of
        Inl (_, _, s) \<Rightarrow> size s
      | Inr (_, _, _, ss) \<Rightarrow> size_list size ss)") auto

fun cells_order :: "bool \<Rightarrow> nat \<Rightarrow> cell list \<Rightarrow> pos list" where
  "cells_order b c [] = []"
| "cells_order b c (cl # cls) = block_order b [c] 0 (source cl) @ cells_order b (c + 1) cls"

definition textual_order :: "bool \<Rightarrow> notebook \<Rightarrow> pos list" where
  "textual_order b nb = cells_order b 0 nb"

text \<open>A run that completes, with the given trace and the given statements started.\<close>

fun completes_with :: "outcome \<Rightarrow> event list \<Rightarrow> pos list \<Rightarrow> bool" where
  "completes_with (Inr env, t, l) t' l' = (t = t' \<and> l = l')"
| "completes_with (Inl err, t, l) t' l' = False"

section \<open>What the claims speak of\<close>

subsection \<open>The text of a notebook\<close>

text \<open>Every statement of a notebook, the nested ones included, and every expression.\<close>

fun substmts :: "stmt \<Rightarrow> stmt list" where
  "substmts (IfS c body orelse) =
     IfS c body orelse # concat (map substmts body) @ concat (map substmts orelse)"
| "substmts (WhileS c body) = WhileS c body # concat (map substmts body)"
| "substmts (ForS t e body) = ForS t e body # concat (map substmts body)"
| "substmts (TryS body handlers) =
     TryS body handlers # concat (map substmts body) @ concat (map substmts handlers)"
| "substmts (WithS e body) = WithS e body # concat (map substmts body)"
| "substmts (FunDef f body) = FunDef f body # concat (map substmts body)"
| "substmts (ClassDef c body) = ClassDef c body # concat (map substmts body)"
| "substmts s = [s]"

definition statements :: "notebook \<Rightarrow> stmt list" where
  "statements nb = concat (map substmts (concat (map source nb)))"

fun target_exprs :: "target \<Rightarrow> expr list" where
  "target_exprs (TName a) = []"
| "target_exprs (TAttr e a) = [e]"
| "target_exprs (TSubscr e i) = [e, i]"

fun stmt_exprs :: "stmt \<Rightarrow> expr list" where
  "stmt_exprs (Assign t e) = e # target_exprs t"
| "stmt_exprs (ExprStmt e) = [e]"
| "stmt_exprs (IfS c body orelse) = [c]"
| "stmt_exprs (WhileS c body) = [c]"
| "stmt_exprs (ForS t e body) = e # target_exprs t"
| "stmt_exprs (WithS e body) = [e]"
| "stmt_exprs (AssertS e) = [e]"
| "stmt_exprs (RaiseS e) = [e]"
| "stmt_exprs s = []"

function (sequential) subexprs :: "expr \<Rightarrow> expr list"
  and subexprs_list :: "expr list \<Rightarrow> expr list"
  and subexprs_kws :: "kwarg list \<Rightarrow> expr list"
  and subexprs_items :: "(expr \<times> expr) list \<Rightarrow> expr list"
where
  "subexprs (Attr e a) = Attr e a # subexprs e"
| "subexprs (Subscr e i) = Subscr e i # subexprs e @ subexprs i"
| "subexprs (Call f args kws) =
     Call f args kws # subexprs f @ subexprs_list args @ subexprs_kws kws"
| "subexprs (ListE es) = ListE es # subexprs_list es"
| "subexprs (TupleE es) = TupleE es # subexprs_list es"
| "subexprs (DictE items) = DictE items # subexprs_items items"
| "subexprs (NotE e) = NotE e # subexprs e"
| "subexprs (BinOp a op b) = BinOp a op b # subexprs a @ subexprs b"
| "subexprs (Lambda ps e) = Lambda ps e # subexprs e"
| "subexprs e = [e]"
| "subexprs_list [] = []"
| "subexprs_list (e # es) = subexprs e @ subexprs_list es"
| "subexprs_kws [] = []"
| "subexprs_kws (Kw k e # kws) = subexprs e @ subexprs_kws kws"
| "subexprs_kws (StarStar e # kws) = subexprs e @ subexprs_kws kws"
| "subexprs_items [] = []"
| "subexprs_items ((k, e) # items) = subexprs k @ subexprs e @ subexprs_items items"
  by pat_completeness auto
termination
  by (relation "measure (\<lambda>a. case a of
        Inl (Inl e) \<Rightarrow> size e
      | Inl (Inr es) \<Rightarrow> size_list size es
      | Inr (Inl kws) \<Rightarrow> size_list size kws
      | Inr (Inr items) \<Rightarrow> size_list (size_prod size size) items)") auto

definition expressions :: "notebook \<Rightarrow> expr list" where
  "expressions nb = subexprs_list (concat (map stmt_exprs (statements nb)))"

fun is_def :: "stmt \<Rightarrow> bool" where
  "is_def (FunDef f body) = True"
| "is_def (ClassDef c body) = True"
| "is_def s = False"

fun is_lambda :: "expr \<Rightarrow> bool" where
  "is_lambda (Lambda ps e) = True"
| "is_lambda e = False"

fun is_loop :: "stmt \<Rightarrow> bool" where
  "is_loop (WhileS c body) = True"
| "is_loop (ForS t e body) = True"
| "is_loop s = False"

fun is_branch :: "stmt \<Rightarrow> bool" where
  "is_branch (IfS c body orelse) = True"
| "is_branch s = False"

fun is_try :: "stmt \<Rightarrow> bool" where
  "is_try (TryS body handlers) = True"
| "is_try s = False"

fun is_check :: "stmt \<Rightarrow> bool" where
  "is_check (AssertS e) = True"
| "is_check (RaiseS e) = True"
| "is_check s = False"

fun is_operator :: "expr \<Rightarrow> bool" where
  "is_operator (BinOp a op b) = True"
| "is_operator (NotE e) = True"
| "is_operator e = False"

fun is_call_expr :: "expr \<Rightarrow> bool" where
  "is_call_expr (Call f args kws) = True"
| "is_call_expr e = False"

text \<open>
  A guard: an \<open>if\<close> whose condition calls something, that is, asks before the branch
  acts. The notebooks call nothing but external libraries.
\<close>

definition is_guard :: "stmt \<Rightarrow> bool" where
  "is_guard s = (is_branch s \<and> list_ex is_call_expr (subexprs_list (stmt_exprs s)))"

subsection \<open>The operations of a run\<close>

text \<open>
  A call is known by the name called (the last attribute of its callee), the object it
  is called on, its positional and its keyword arguments.
\<close>

fun calls :: "string \<Rightarrow> event \<Rightarrow> bool" where
  "calls a (ECall (VAttr v b) avs kvs) = (a = b)"
| "calls a ev = False"

fun receiver :: "event \<Rightarrow> val option" where
  "receiver (ECall (VAttr v b) avs kvs) = Some v"
| "receiver ev = None"

fun args :: "event \<Rightarrow> val list" where
  "args (ECall f avs kvs) = avs"
| "args ev = []"

fun keyword_arg :: "string \<Rightarrow> event \<Rightarrow> val option" where
  "keyword_arg k (ECall f avs kvs) = lookup kvs k"
| "keyword_arg k ev = None"

text \<open>The results of earlier operations that a value, or an operation, is built from.\<close>

function (sequential) tokens :: "val \<Rightarrow> nat list"
  and tokens_list :: "val list \<Rightarrow> nat list"
  and tokens_items :: "(val \<times> val) list \<Rightarrow> nat list"
where
  "tokens (VExt k) = [k]"
| "tokens (VAttr v a) = tokens v"
| "tokens (VItem v i) = tokens v @ tokens i"
| "tokens (VBin op a b) = tokens a @ tokens b"
| "tokens (VList vs) = tokens_list vs"
| "tokens (VTuple vs) = tokens_list vs"
| "tokens (VDict kvs) = tokens_items kvs"
| "tokens v = []"
| "tokens_list [] = []"
| "tokens_list (v # vs) = tokens v @ tokens_list vs"
| "tokens_items [] = []"
| "tokens_items ((k, v) # kvs) = tokens k @ tokens v @ tokens_items kvs"
  by pat_completeness auto
termination
  by (relation "measure (\<lambda>a. case a of
        Inl v \<Rightarrow> size v
      | Inr (Inl vs) \<Rightarrow> size_list size vs
      | Inr (Inr kvs) \<Rightarrow> size_list (size_prod size size) kvs)") auto


text \<open>
  Where an operation comes from: the imported module (or the Python builtin, or the
  IPython magic) that the object it acts on was obtained from, through any chain of
  earlier results. \<open>rs\<close> holds the origins of the operations before.
\<close>

fun origin_of :: "val list \<Rightarrow> val \<Rightarrow> val" where
  "origin_of rs (VAttr v a) = origin_of rs v"
| "origin_of rs (VItem v i) = origin_of rs v"
| "origin_of rs (VExt k) = (if k < length rs then rs ! k else VExt k)"
| "origin_of rs v = v"

fun op_origin :: "val list \<Rightarrow> event \<Rightarrow> val" where
  "op_origin rs (ECall f avs kvs) = origin_of rs f"
| "op_origin rs (ESet loc v) = origin_of rs loc"
| "op_origin rs (EImport m ns) = VLib m"
| "op_origin rs (EMagic m) = VBuiltin ''%''"

definition origins :: "event list \<Rightarrow> val list" where
  "origins tr = foldl (\<lambda>rs ev. rs @ [op_origin rs ev]) [] tr"

fun is_library :: "val \<Rightarrow> bool" where
  "is_library (VLib m) = True"
| "is_library (VBuiltin a) = True"
| "is_library v = False"

subsection \<open>The stages of the pipeline\<close>

text \<open>
  The stage of a call is read off the library its callee comes from (its origin, through
  any chain of earlier results) and, within a library, off the method called. One rule
  for both notebooks:

  \<^item> every call into the component library \<open>qiskit_metal.qlibrary\<close> is geometry;
  \<^item> of the calls into the renderer library \<open>qiskit_metal.renderers\<close>, \<open>run\<close> is the
    solve, the three calls that show, save or load the solver's results are
    post-processing, \<open>close\<close> has no stage, and every other call (the construction of
    a renderer included) is rendering;
  \<^item> of the calls into the analysis library \<open>qiskit_metal.analyses\<close>, \<open>run\<close> is the
    solve, \<open>close\<close> has no stage, and every other call (the construction of an
    analysis object included) is post-processing;
  \<^item> a call into any other library, and an operation that is not a call, has no stage.
\<close>

datatype stage = Geometry | Rendering | Solving | Postprocessing


definition in_package :: "string \<Rightarrow> string \<Rightarrow> bool" where
  "in_package p m = (m = p \<or> prefix (p @ ''.'') m)"

definition result_calls :: "string list" where
  "result_calls =
     [''display_post_processing_data'', ''save_capacitance_matrix'',
      ''load_capacitance_matrix_from_file'']"

fun stage_in :: "val \<Rightarrow> string \<Rightarrow> stage option" where
  "stage_in (VLib m) a =
     (if in_package ''qiskit_metal.qlibrary'' m then Some Geometry
      else if in_package ''qiskit_metal.renderers'' m then
        (if a = ''run'' then Some Solving
         else if a \<in> set result_calls then Some Postprocessing
         else if a = ''close'' then None
         else Some Rendering)
      else if in_package ''qiskit_metal.analyses'' m then
        (if a = ''run'' then Some Solving
         else if a = ''close'' then None
         else Some Postprocessing)
      else None)"
| "stage_in v a = None"

text \<open>An operation with its origin: the name called and its stage, when it has one.\<close>

fun staged :: "val \<times> event \<Rightarrow> (string \<times> stage) option" where
  "staged (org, ECall (VAttr v a) avs kvs) = map_option (Pair a) (stage_in org a)"
| "staged (org, ev) = None"

definition staged_calls :: "event list \<Rightarrow> (string \<times> stage) list" where
  "staged_calls tr = List.map_filter staged (zip (origins tr) tr)"

definition stages :: "event list \<Rightarrow> stage list" where
  "stages tr = map snd (staged_calls tr)"


subsection \<open>Connection pads and opened pins\<close>

text \<open>
  The pins a component's construction declares: its name (the second argument) paired
  with each key of \<open>connection_pads\<close> in its \<open>options\<close>.
\<close>

fun option_pads :: "val \<Rightarrow> val list" where
  "option_pads (VDict kvs) =
     (case lookup kvs (VStr ''connection_pads'') of
        Some (VDict pads) \<Rightarrow> map fst pads
      | _ \<Rightarrow> [])"
| "option_pads v = []"

fun declared_pins :: "event \<Rightarrow> val list" where
  "declared_pins (ECall f [d, name] kvs) =
     (case lookup kvs ''options'' of
        Some opts \<Rightarrow> map (\<lambda>pad. VTuple [name, pad]) (option_pads opts)
      | None \<Rightarrow> [])"
| "declared_pins ev = []"

definition declared :: "event list \<Rightarrow> val list" where
  "declared tr = concat (map declared_pins (filter (calls ''TransmonPocket6'') tr))"

fun opens_exactly :: "val list \<Rightarrow> event \<Rightarrow> bool" where
  "opens_exactly pins ev =
     (case keyword_arg ''open_pins'' ev of
        Some (VList ps) \<Rightarrow> set ps = set pins
      | _ \<Rightarrow> False)"

subsection \<open>The material of the chips\<close>

fun material_store :: "event \<Rightarrow> (val \<times> val) list" where
  "material_store (ESet (VItem (VItem (VAttr d a) chip) k) v) =
     (if a = ''chips'' \<and> k = VStr ''material'' then [(chip, v)] else [])"
| "material_store ev = []"

definition chip_materials :: "event list \<Rightarrow> (val \<times> val) list" where
  "chip_materials tr = concat (map material_store tr)"

subsection \<open>Handles\<close>

text \<open>
  The handles an operation opens, by the name constructed: the window of a Metal GUI, a
  renderer, the project, desktop and application of an ANSYS session, the simulation
  of an EPR analysis. \<open>close\<close> and \<open>release\<close> close the object they are called on.
\<close>

fun opens :: "nat \<Rightarrow> event \<Rightarrow> val list" where
  "opens k (ECall (VAttr v a) avs kvs) =
     (if a = ''MetalGUI'' then [VAttr (VExt k) ''main_window'']
      else if a = ''QGmshRenderer'' \<or> a = ''QElmerRenderer'' then [VExt k]
      else if a = ''ProjectInfo'' then
        [VAttr (VExt k) ''project'', VAttr (VExt k) ''desktop'', VAttr (VExt k) ''app'']
      else if a = ''EPRanalysis'' then [VAttr (VExt k) ''sim'']
      else [])"
| "opens k ev = []"

fun closes :: "event \<Rightarrow> val list" where
  "closes (ECall (VAttr h a) avs kvs) = (if a = ''close'' \<or> a = ''release'' then [h] else [])"
| "closes ev = []"

fun opened_from :: "nat \<Rightarrow> event list \<Rightarrow> val list" where
  "opened_from k [] = []"
| "opened_from k (ev # tr) = opens k ev @ opened_from (k + 1) tr"

definition closed :: "event list \<Rightarrow> val list" where
  "closed tr = concat (map closes tr)"


subsection \<open>The capacitance matrix file\<close>









section \<open>Runs that an external operation stops\<close>

text \<open>
  \<open>quiet x\<close> is the external world \<open>x\<close> with every operation succeeding. A run under
  \<open>x\<close> agrees with the run under \<open>quiet x\<close>: it is the same run when no operation
  raises, and otherwise it stops with the error of the first operation that raises,
  which is the last one it attempts, having attempted and started an initial part of
  what the quiet run does. \<open>calm x n m\<close>: none of the operations \<open>n\<close> to \<open>m - 1\<close>
  raises.
\<close>

definition quiet :: "extern \<Rightarrow> extern" where
  "quiet x = x\<lparr>raises := \<lambda>k. False\<rparr>"

definition calm :: "extern \<Rightarrow> nat \<Rightarrow> nat \<Rightarrow> bool" where
  "calm x n m = (\<forall>i. n \<le> i \<and> i < m \<longrightarrow> \<not> raises x i)"

fun agrees :: "extern \<Rightarrow> nat \<Rightarrow> 'a res \<Rightarrow> 'a res \<Rightarrow> bool" where
  "agrees x n (Inl (Raised k), t) b =
     (Suc k = n + length t \<and> raises x k \<and> calm x n k \<and> prefix t (snd b))"
| "agrees x n a b = (b = a \<and> calm x n (n + length (snd a)))"

fun agrees_out :: "extern \<Rightarrow> nat \<Rightarrow> outcome \<Rightarrow> outcome \<Rightarrow> bool" where
  "agrees_out x n (Inl (Raised k), t, l) b =
     (Suc k = n + length t \<and> raises x k \<and> calm x n k \<and>
      prefix t (fst (snd b)) \<and> prefix l (snd (snd b)))"
| "agrees_out x n a b = (b = a \<and> calm x n (n + length (fst (snd a))))"

text \<open>
  A run follows a script (the operations \<open>T\<close> and the statements \<open>L\<close>): it attempts
  and starts an initial part of it, all of it when it completes; it stops only at an
  operation that raises, with that operation's error, and every operation that raises
  stops it.
\<close>

definition follows :: "extern \<Rightarrow> notebook \<Rightarrow> event list \<Rightarrow> pos list \<Rightarrow> bool" where
  "follows x nb T L =
     (prefix (events x nb) T \<and> prefix (started x nb) L \<and>
      (stopped x nb = None \<longrightarrow> events x nb = T \<and> started x nb = L) \<and>
      (\<forall>e. stopped x nb = Some e \<longrightarrow>
         (\<exists>k. e = Raised k \<and> raises x k \<and> length (events x nb) = Suc k)) \<and>
      (\<forall>k. k < length (events x nb) \<and> raises x k \<longrightarrow>
         stopped x nb = Some (Raised k) \<and> length (events x nb) = Suc k))"

text \<open>
  Three external worlds to run the notebooks in: nothing raises and the material is
  already defined; nothing raises and it is not; the operation \<open>k\<close> raises.
\<close>

definition material_present :: extern where
  "material_present = \<lparr>raises = (\<lambda>k. False), truth = (\<lambda>v. True)\<rparr>"

definition material_missing :: extern where
  "material_missing = \<lparr>raises = (\<lambda>k. False), truth = (\<lambda>v. False)\<rparr>"

definition raising_at :: "nat \<Rightarrow> extern" where
  "raising_at k = \<lparr>raises = (\<lambda>i. i = k), truth = (\<lambda>v. True)\<rparr>"

section \<open>Lemmas: evaluating the notebooks\<close>

text \<open>
  The equations that evaluate a run, for the simplifier. A cell's source is unfolded
  only where the run reaches the cell.
\<close>

lemmas interp_simps =
  eval.simps eval_list.simps eval_kws.simps eval_items.simps exec.simps exec_block.simps
  exec_simple.simps run_cells.simps lookup.simps after.simps after_block.simps no_log.simps
  op_then.simps opaque.simps callable.simps numeric.simps truthy.simps subst_s.simps
  binop_val.simps str_key.simps unpack.simps import_binding.simps from_binding.simps
  run_def init_env_def ext_op_def store_def path_def apply_call_def py_dict_def subscript_def
  top_package_def completes_with.simps stmt_order.simps block_order.simps cells_order.simps
  textual_order_def

lemmas data_simps =
  simp_thms if_True if_False list.inject list.distinct char.inject prod.inject prod.case
  sum.case option.case val.case sum.inject sum.distinct option.inject option.distinct
  val.inject val.distinct event.inject event.distinct binop.distinct fst_conv snd_conv
  append.simps list.map rev.simps those.simps distinct.simps filter.simps list.set
  insert_iff empty_iff takeWhile.simps foldl.simps list.size(3,4) add_Suc_right add_0_right
  add_Suc add_0 numeral_eq_Suc pred_numeral_simps BitM.simps One_nat_def option.map
  de_Morgan_conj de_Morgan_disj nat.inject nat.distinct error.inject error.distinct cell.simps

lemmas eval_congs =
  if_weak_cong prod.case_cong_weak sum.case_cong_weak option.case_cong_weak val.case_cong_weak

lemmas elmer_sources =
  arg_cong[where f = source, OF cell_28f8c32e_def] arg_cong[where f = source, OF cell_a76242c0_def]
  arg_cong[where f = source, OF cell_31a7b793_def] arg_cong[where f = source, OF cell_6fe517d6_def]
  arg_cong[where f = source, OF cell_d97e061c_def] arg_cong[where f = source, OF cell_713202e1_def]
  arg_cong[where f = source, OF cell_eef5a352_def] arg_cong[where f = source, OF cell_545d393c_def]
  arg_cong[where f = source, OF cell_b851f19f_def] arg_cong[where f = source, OF cell_4b02fbf9_def]
  arg_cong[where f = source, OF cell_af6556de_def] arg_cong[where f = source, OF cell_3672846f_def]
  arg_cong[where f = source, OF cell_88883f88_def] arg_cong[where f = source, OF cell_8c2f7a6a_def]
  arg_cong[where f = source, OF cell_e7c297c2_def] arg_cong[where f = source, OF cell_43145408_def]
  arg_cong[where f = source, OF cell_ab7e7c7a_def] arg_cong[where f = source, OF cell_5cc8b22f_def]
  arg_cong[where f = source, OF cell_020dc57e_def] arg_cong[where f = source, OF cell_b250b918_def]
  arg_cong[where f = source, OF cell_07625769_def] arg_cong[where f = source, OF cell_ca5cf807_def]
  arg_cong[where f = source, OF cell_b20674ae_def] arg_cong[where f = source, OF cell_603f8d95_def]
  arg_cong[where f = source, OF cell_cf3df357_def] arg_cong[where f = source, OF cell_9705e531_def]
  arg_cong[where f = source, OF cell_d5c8c296_def] arg_cong[where f = source, OF cell_4f44c894_def]
  arg_cong[where f = source, OF cell_86f39d01_def] arg_cong[where f = source, OF cell_19fee4da_def]
  arg_cong[where f = source, OF cell_c18d596f_def] arg_cong[where f = source, OF cell_b4c2cdfb_def]
  arg_cong[where f = source, OF cell_8c01e33b_def] arg_cong[where f = source, OF cell_afdfe557_def]
  arg_cong[where f = source, OF cell_963212c4_def] arg_cong[where f = source, OF cell_44627014_def]
  arg_cong[where f = source, OF cell_9c3428fa_def]

lemmas flipchip_sources =
  arg_cong[where f = source, OF cell_0d41a1db_def] arg_cong[where f = source, OF cell_1c02013c_def]
  arg_cong[where f = source, OF cell_88f78db4_def] arg_cong[where f = source, OF cell_1a4c6ad6_def]
  arg_cong[where f = source, OF cell_ddbc50d8_def] arg_cong[where f = source, OF cell_b35cb7f9_def]
  arg_cong[where f = source, OF cell_f566f85f_def] arg_cong[where f = source, OF cell_9007cb94_def]
  arg_cong[where f = source, OF cell_dd6060f0_def] arg_cong[where f = source, OF cell_025e0bfa_def]
  arg_cong[where f = source, OF cell_6eb99015_def] arg_cong[where f = source, OF cell_1b1af6d6_def]
  arg_cong[where f = source, OF cell_548873c3_def] arg_cong[where f = source, OF cell_ac123d75_def]
  arg_cong[where f = source, OF cell_491db648_def] arg_cong[where f = source, OF cell_b973d2bc_def]
  arg_cong[where f = source, OF cell_6f56cc50_def]

text \<open>The runs in which nothing raises have the traces written out above.\<close>

lemma elmer_run:
  assumes "\<forall>k. \<not> raises x k"
  shows "completes_with (run x elmer_notebook) elmer_trace (textual_order b elmer_notebook)"
  using assms
  by (simp only: interp_simps data_simps elmer_sources elmer_notebook_def elmer_trace_def
      cong: eval_congs)

lemma flipchip_run_present:
  assumes "\<forall>k. \<not> raises x k" and "truth x (VExt 31)"
  shows "completes_with (run x flipchip_notebook) (flipchip_trace True)
           (textual_order False flipchip_notebook)"
  using assms
  by (simp only: interp_simps data_simps flipchip_sources flipchip_notebook_def
      flipchip_trace_def flipchip_setup_def flipchip_rest_def add_material_def cong: eval_congs)

lemma flipchip_run_missing:
  assumes "\<forall>k. \<not> raises x k" and "\<not> truth x (VExt 31)"
  shows "completes_with (run x flipchip_notebook) (flipchip_trace False)
           (textual_order True flipchip_notebook)"
  using assms
  by (simp only: interp_simps data_simps flipchip_sources flipchip_notebook_def
      flipchip_trace_def flipchip_setup_def flipchip_rest_def add_material_def cong: eval_congs)

section \<open>Lemmas: a run and its quiet run\<close>

lemma truthy_quiet [simp]: "truthy (quiet x) v = truthy x v"
  by (cases v) (simp_all add: quiet_def)

lemma calm_refl [simp]: "calm x n n"
  by (auto simp: calm_def)

lemma calm_trans: "calm x n m \<Longrightarrow> calm x m k \<Longrightarrow> calm x n k"
  by (auto simp: calm_def) (metis not_le_imp_less)

lemma calm_Suc: "\<not> raises x n \<Longrightarrow> calm x n (Suc n)"
  by (auto simp: calm_def less_Suc_eq_le)

lemma agrees_ext_op: "agrees x n (ext_op x n ev) (ext_op (quiet x) n ev)"
  by (auto simp: ext_op_def quiet_def calm_Suc)

lemma agrees_after:
  "calm x n (n + length t1) \<Longrightarrow> agrees x (n + length t1) a b \<Longrightarrow> agrees x n (after t1 a) (after t1 b)"
  apply (cases a; cases b)
  subgoal for r t r0 t0
    apply (cases r)
    subgoal for e by (cases e) (auto intro: calm_trans simp: add.assoc)
    subgoal by (auto intro: calm_trans simp: add.assoc)
    done
  done

lemma snd_after [simp]: "snd (after t a) = t @ snd a"
  by (cases a) simp

lemma fst_after [simp]: "fst (after t a) = fst a"
  by (cases a) simp

lemma agrees_pure [simp]: "agrees x n (Inr v, []) (Inr v, [])"
  by simp

lemma agrees_seq:
  assumes "agrees x n p p0"
    and "\<And>v t1. p = (Inr v, t1) \<Longrightarrow> agrees x (n + length t1) (f v t1) (f0 v t1)"
  shows "agrees x n
           (case p of (Inl err, t1) \<Rightarrow> (Inl err, t1) | (Inr v, t1) \<Rightarrow> after t1 (f v t1))
           (case p0 of (Inl err, t1) \<Rightarrow> (Inl err, t1) | (Inr v, t1) \<Rightarrow> after t1 (f0 v t1))"
proof (cases p)
  case (Pair r t1)
  show ?thesis
  proof (cases r)
    case (Inl e)
    show ?thesis
    proof (cases e)
      case (Raised k)
      with Inl Pair assms(1) show ?thesis
        by (cases p0) (auto split: sum.splits prod.splits intro: prefix_prefix)
    qed (use Inl Pair assms(1) in auto)
  next
    case (Inr v)
    with Pair assms(1) have p0: "p0 = (Inr v, t1)" and c: "calm x n (n + length t1)"
      by auto
    from assms(2)[OF Pair[unfolded Inr]] c show ?thesis
      unfolding Pair Inr p0 by (simp add: agrees_after)
  qed
qed

lemma agrees_same:
  "(\<And>k. r \<noteq> Inl (Raised k)) \<Longrightarrow> agrees x n (r, t) b = (b = (r, t) \<and> calm x n (n + length t))"
  apply (cases r)
  subgoal for e by (cases e) auto
  subgoal by auto
  done

lemma agrees_nil [simp]: "(\<And>k. r \<noteq> Inl (Raised k)) \<Longrightarrow> agrees x n (r, []) (r, [])"
  by (simp add: agrees_same)

lemma agrees_map:
  assumes "agrees x n p p0" and "\<And>v k. g v \<noteq> Inl (Raised k)" and "\<And>v. g0 v = g v"
  shows "agrees x n
           (case p of (Inl err, t1) \<Rightarrow> (Inl err, t1) | (Inr v, t1) \<Rightarrow> (g v, t1))
           (case p0 of (Inl err, t1) \<Rightarrow> (Inl err, t1) | (Inr v, t1) \<Rightarrow> (g0 v, t1))"
proof (cases p)
  case (Pair r t1)
  show ?thesis
  proof (cases r)
    case (Inl e)
    show ?thesis
    proof (cases e)
      case (Raised k)
      with Inl Pair assms(1) show ?thesis
        by (cases p0) (auto split: sum.splits prod.splits)
    qed (use Inl Pair assms(1) in auto)
  next
    case (Inr v)
    with Pair assms(1) have p0: "p0 = (Inr v, t1)" and c: "calm x n (n + length t1)"
      by auto
    show ?thesis
      unfolding Pair Inr p0 using c by (simp add: agrees_same[OF assms(2)] assms(3))
  qed
qed

lemma subscript_not_raised: "subscript v i \<noteq> Inl (Raised k)"
  by (auto simp: subscript_def split: val.splits option.splits)

lemma binop_val_not_raised: "binop_val op a b \<noteq> Inl (Raised k)"
  by (cases "(op, a, b)" rule: binop_val.cases) (auto split: option.splits)

lemma py_dict_not_raised: "py_dict avs kvs \<noteq> Inl (Raised k)"
  by (auto simp: py_dict_def)

lemma agrees_apply_call:
  "agrees x n (apply_call x n fv avs kvs) (apply_call (quiet x) n fv avs kvs)"
  unfolding apply_call_def
  by (auto simp: agrees_ext_op agrees_same[OF py_dict_not_raised] simp del: agrees.simps)

lemma eval_agrees:
  "agrees x n (eval x env n e) (eval (quiet x) env n e)"
  "agrees x n (eval_list x env n es) (eval_list (quiet x) env n es)"
  "agrees x n (eval_kws x env n kws) (eval_kws (quiet x) env n kws)"
  "agrees x n (eval_items x env n items) (eval_items (quiet x) env n items)"
     apply (induction x env n e and x env n es and x env n kws and x env n items
      rule: eval_eval_list_eval_kws_eval_items.induct)
                      apply (auto intro!: agrees_seq agrees_map agrees_apply_call
      simp: subscript_not_raised binop_val_not_raised simp del: agrees.simps
      split: option.splits if_splits)
  done

lemma agrees_out_same:
  "(\<And>k. r \<noteq> Inl (Raised k)) \<Longrightarrow>
   agrees_out x n (r, t, l) b = (b = (r, t, l) \<and> calm x n (n + length t))"
  apply (cases r)
  subgoal for e by (cases e) auto
  subgoal by auto
  done

lemma agrees_op_then: "agrees x n r r0 \<Longrightarrow> agrees x n (op_then env r) (op_then env r0)"
  apply (cases r; cases r0)
  subgoal for a t a0 t0
    apply (cases a)
    subgoal for e by (cases e; cases a0) auto
    subgoal by auto
    done
  done

lemma agrees_store: "agrees x n (store x env n obj loc v) (store (quiet x) env n obj loc v)"
  by (auto simp: store_def agrees_ext_op intro!: agrees_op_then simp del: agrees.simps)

lemma exec_simple_agrees: "agrees x n (exec_simple x env n s) (exec_simple (quiet x) env n s)"
  apply (cases "(x, env, n, s)" rule: exec_simple.cases)
  apply (auto intro!: agrees_seq agrees_map agrees_op_then agrees_store agrees_ext_op eval_agrees
      simp del: agrees.simps)
  done

lemma agrees_no_log: "agrees x n r r0 \<Longrightarrow> agrees_out x n (no_log r) (no_log r0)"
  apply (cases r; cases r0)
  subgoal for a t a0 t0
    apply (cases a)
    subgoal for e by (cases e; cases a0) auto
    subgoal by auto
    done
  done

lemma agrees_out_after:
  "calm x n (n + length t1) \<Longrightarrow> agrees_out x (n + length t1) a b \<Longrightarrow>
   agrees_out x n (after_block t1 l1 a) (after_block t1 l1 b)"
  apply (cases a; cases b)
  subgoal for r t l r0 t0 l0
    apply (cases r)
    subgoal for e by (cases e) (auto intro: calm_trans simp: add.assoc)
    subgoal by (auto intro: calm_trans simp: add.assoc)
    done
  done

lemma agrees_out_if:
  assumes "agrees x n p p0"
    and "\<And>v t1. p = (Inr v, t1) \<Longrightarrow> agrees_out x (n + length t1) (f v t1) (f0 v t1)"
  shows "agrees_out x n
           (case p of (Inl err, t1) \<Rightarrow> (Inl err, t1, []) | (Inr v, t1) \<Rightarrow> after_block t1 [] (f v t1))
           (case p0 of (Inl err, t1) \<Rightarrow> (Inl err, t1, []) | (Inr v, t1) \<Rightarrow> after_block t1 [] (f0 v t1))"
proof (cases p)
  case (Pair r t1)
  show ?thesis
  proof (cases r)
    case (Inl e)
    show ?thesis
    proof (cases e)
      case (Raised k)
      with Inl Pair assms(1) show ?thesis
        by (cases p0; cases "f0 (projr (fst p0)) (snd p0)")
          (auto split: sum.splits prod.splits intro: prefix_prefix)
    qed (use Inl Pair assms(1) in auto)
  next
    case (Inr v)
    with Pair assms(1) have p0: "p0 = (Inr v, t1)" and c: "calm x n (n + length t1)"
      by auto
    from assms(2)[OF Pair[unfolded Inr]] c show ?thesis
      unfolding Pair Inr p0 by (simp add: agrees_out_after)
  qed
qed

lemma agrees_out_seq:
  assumes "agrees_out x n p p0"
    and "\<And>v t1 l1. p = (Inr v, t1, l1) \<Longrightarrow> agrees_out x (n + length t1) (f v t1 l1) (f0 v t1 l1)"
    and "\<And>a b. prefix a b \<Longrightarrow> prefix (g a) (g b)"
  shows "agrees_out x n
           (case p of (Inl err, t1, l1) \<Rightarrow> (Inl err, t1, g l1)
            | (Inr v, t1, l1) \<Rightarrow> after_block t1 (g l1) (f v t1 l1))
           (case p0 of (Inl err, t1, l1) \<Rightarrow> (Inl err, t1, g l1)
            | (Inr v, t1, l1) \<Rightarrow> after_block t1 (g l1) (f0 v t1 l1))"
proof (cases p)
  case (fields r t1 l1)
  show ?thesis
  proof (cases r)
    case (Inl e)
    show ?thesis
    proof (cases e)
      case (Raised k)
      obtain r0 t0 l0 where p0: "p0 = (r0, t0, l0)"
        by (cases p0)
      from Raised Inl fields assms(1) p0
      have k: "Suc k = n + length t1" "raises x k" "calm x n k" "prefix t1 t0" "prefix l1 l0"
        by auto
      show ?thesis
      proof (cases r0)
        case l: (Inl e0)
        show ?thesis
          unfolding fields Inl Raised p0 l using k assms(3) by simp
      next
        case r: (Inr v0)
        obtain r1 t2 l2 where f0: "f0 v0 t0 l0 = (r1, t2, l2)"
          by (cases "f0 v0 t0 l0")
        show ?thesis
          unfolding fields Inl Raised p0 r using k assms(3)[OF k(5)]
          by (simp add: f0 prefix_prefix)
      qed
    qed (use Inl fields assms(1) in auto)
  next
    case (Inr v)
    with fields assms(1) have p0: "p0 = (Inr v, t1, l1)" and c: "calm x n (n + length t1)"
      by auto
    from assms(2)[OF fields[unfolded Inr]] c show ?thesis
      unfolding fields Inr p0 by (simp add: agrees_out_after)
  qed
qed

lemma agrees_out_nil [simp]: "agrees_out x n (Inr env, [], []) (Inr env, [], [])"
  by simp

lemma exec_agrees:
  "agrees_out x n (exec x p env n s) (exec (quiet x) p env n s)"
  "agrees_out x n (exec_block x p i env n ss) (exec_block (quiet x) p i env n ss)"
   apply (induction x p env n s and x p i env n ss rule: exec_exec_block.induct)
                  apply (auto intro!: agrees_out_if agrees_out_seq agrees_no_log exec_simple_agrees
      eval_agrees simp del: agrees.simps agrees_out.simps exec_simple.simps)
  done

lemma run_cells_agrees:
  "agrees_out x n (run_cells x c env n cls) (run_cells (quiet x) c env n cls)"
  apply (induction cls arbitrary: c env n)
   apply (auto intro!: agrees_out_seq[where g = "\<lambda>l. l"] exec_agrees simp del: agrees_out.simps)
  done

lemma run_agrees: "agrees_out x 0 (run x nb) (run (quiet x) nb)"
  by (simp add: run_def run_cells_agrees del: agrees_out.simps)

text \<open>So every run follows the script of its quiet run.\<close>

lemma run_follows:
  assumes "completes_with (run (quiet x) nb) T L"
  shows "follows x nb T L"
proof -
  obtain r t l where run: "run x nb = (r, t, l)"
    by (cases "run x nb")
  obtain r0 t0 l0 where run0: "run (quiet x) nb = (r0, t0, l0)"
    by (cases "run (quiet x) nb")
  from assms run0 obtain env0 where q: "r0 = Inr env0" "t0 = T" "l0 = L"
    by (cases r0) auto
  have a: "agrees_out x 0 (r, t, l) (Inr env0, T, L)"
    using run_agrees[of x nb] by (simp add: run run0 q del: agrees_out.simps)
  show ?thesis
  proof (cases "\<exists>k. r = Inl (Raised k)")
    case True
    then obtain k where k: "r = Inl (Raised k)" ..
    from a k have f: "Suc k = length t" "raises x k" "calm x 0 k" "prefix t T" "prefix l L"
      by auto
    have "j = k" if "j < length t" "raises x j" for j
      using that f(1,3) by (auto simp: calm_def less_Suc_eq_le [symmetric] not_less) (metis f(1) less_Suc_eq not_less_eq)
    with f k show ?thesis
      by (auto simp: follows_def events_def started_def stopped_def run)
  next
    case False
    then have "(Inr env0, T, L) = (r, t, l) \<and> calm x 0 (0 + length t)"
      using a by (simp add: agrees_out_same)
    then show ?thesis
      by (auto simp: follows_def events_def started_def stopped_def run calm_def)
  qed
qed

lemma quiet_never_raises: "\<forall>k. \<not> raises (quiet x) k"
  by (simp add: quiet_def)

lemma truth_quiet: "truth (quiet x) v = truth x v"
  by (simp add: quiet_def)

lemma follows_elmer: "follows x elmer_notebook elmer_trace (textual_order b elmer_notebook)"
  by (rule run_follows) (rule elmer_run [OF quiet_never_raises])

lemma follows_flipchip:
  "follows x flipchip_notebook (flipchip_trace (truth x (VExt 31)))
     (textual_order (\<not> truth x (VExt 31)) flipchip_notebook)"
proof (cases "truth x (VExt 31)")
  case True
  then show ?thesis
    using run_follows [OF flipchip_run_present [OF quiet_never_raises]]
    by (simp add: truth_quiet)
next
  case False
  then show ?thesis
    using run_follows [OF flipchip_run_missing [OF quiet_never_raises]]
    by (simp add: truth_quiet)
qed

section \<open>Lemmas: what every run inherits from its script\<close>

lemma follows_prefix: "follows x nb T L \<Longrightarrow> prefix (events x nb) T"
  by (simp add: follows_def)

lemma follows_completed: "follows x nb T L \<Longrightarrow> stopped x nb = None \<Longrightarrow> events x nb = T"
  by (simp add: follows_def)

lemma follows_quiet: "follows x nb T L \<Longrightarrow> \<forall>k. \<not> raises x k \<Longrightarrow> stopped x nb = None"
  by (cases "stopped x nb") (auto simp: follows_def)

lemma prefix_nth: "prefix t T \<Longrightarrow> i < length t \<Longrightarrow> t ! i = T ! i"
  by (auto simp: prefix_def nth_append)

lemma prefix_take: "prefix t T \<Longrightarrow> length t \<le> n \<Longrightarrow> set t \<subseteq> set (take n T)"
  by (auto simp: prefix_def)


lemma follows_started: "follows x nb T L \<Longrightarrow> stopped x nb = None \<Longrightarrow> started x nb = L"
  by (simp add: follows_def)

lemma follows_started_prefix: "follows x nb T L \<Longrightarrow> prefix (started x nb) L"
  by (simp add: follows_def)

lemma follows_stops:
  "follows x nb T L \<Longrightarrow> k < length (events x nb) \<Longrightarrow> raises x k \<Longrightarrow>
   stopped x nb = Some (Raised k) \<and> length (events x nb) = Suc k"
  by (simp add: follows_def)

lemma follows_error:
  "follows x nb T L \<Longrightarrow> stopped x nb = Some e \<Longrightarrow>
   \<exists>k. e = Raised k \<and> raises x k \<and> length (events x nb) = Suc k"
  by (simp add: follows_def)

lemma follows_raising:
  assumes f: "follows x nb T L" and r: "raises x k" and o: "\<forall>j. raises x j \<longrightarrow> j = k"
    and k: "k < length T"
  shows "stopped x nb = Some (Raised k) \<and> events x nb = take (Suc k) T"
proof (cases "stopped x nb")
  case None
  with f have "events x nb = T" by (rule follows_completed)
  with k r f follows_stops [of x nb T L k] None show ?thesis by simp
next
  case (Some e)
  with f obtain j where j: "e = Raised j" "raises x j" "length (events x nb) = Suc j"
    using follows_error by blast
  with o have "j = k" by simp
  moreover from f have "prefix (events x nb) T" by (rule follows_prefix)
  ultimately show ?thesis using Some j by (auto simp: prefix_def)
qed

lemma present_elmer:
  "stopped material_present elmer_notebook = None \<and>
   events material_present elmer_notebook = elmer_trace \<and>
   started material_present elmer_notebook = textual_order True elmer_notebook"
proof -
  have f: "follows material_present elmer_notebook elmer_trace (textual_order True elmer_notebook)"
    by (rule follows_elmer)
  have s: "stopped material_present elmer_notebook = None"
    by (rule follows_quiet [OF f]) (simp add: material_present_def)
  from f s show ?thesis by (simp add: follows_completed follows_started)
qed

lemma present_flipchip:
  "stopped material_present flipchip_notebook = None \<and>
   events material_present flipchip_notebook = flipchip_trace True \<and>
   started material_present flipchip_notebook = textual_order False flipchip_notebook"
proof -
  have t: "truth material_present (VExt 31)" by (simp add: material_present_def)
  have f: "follows material_present flipchip_notebook (flipchip_trace True)
             (textual_order False flipchip_notebook)"
    using follows_flipchip [of material_present] t by simp
  have s: "stopped material_present flipchip_notebook = None"
    by (rule follows_quiet [OF f]) (simp add: material_present_def)
  from f s show ?thesis by (simp add: follows_completed follows_started)
qed

lemma missing_flipchip:
  "stopped material_missing flipchip_notebook = None \<and>
   events material_missing flipchip_notebook = flipchip_trace False \<and>
   started material_missing flipchip_notebook = textual_order True flipchip_notebook"
proof -
  have t: "\<not> truth material_missing (VExt 31)" by (simp add: material_missing_def)
  have f: "follows material_missing flipchip_notebook (flipchip_trace False)
             (textual_order True flipchip_notebook)"
    using follows_flipchip [of material_missing] t by simp
  have s: "stopped material_missing flipchip_notebook = None"
    by (rule follows_quiet [OF f]) (simp add: material_missing_def)
  from f s show ?thesis by (simp add: follows_completed follows_started)
qed

lemma length_elmer_trace: "length elmer_trace = 69"
  by code_simp

lemma length_flipchip_present: "length (flipchip_trace True) = 51"
  by code_simp

lemma length_flipchip_missing: "length (flipchip_trace False) = 52"
  by code_simp

lemma missing_elmer:
  "stopped material_missing elmer_notebook = None \<and>
   events material_missing elmer_notebook = elmer_trace \<and>
   started material_missing elmer_notebook = textual_order True elmer_notebook"
proof -
  have f: "follows material_missing elmer_notebook elmer_trace (textual_order True elmer_notebook)"
    by (rule follows_elmer)
  have s: "stopped material_missing elmer_notebook = None"
    by (rule follows_quiet [OF f]) (simp add: material_missing_def)
  from f s show ?thesis by (simp add: follows_completed follows_started)
qed

section \<open>What holds of the notebooks\<close>

subsection \<open>The stages of the pipeline\<close>

lemma origins_grow:
  "\<exists>s. foldl (\<lambda>rs ev. rs @ [op_origin rs ev]) rs u = rs @ s \<and> length s = length u"
proof (induction u arbitrary: rs)
  case Nil
  show ?case by simp
next
  case (Cons ev u)
  from Cons [of "rs @ [op_origin rs ev]"] obtain s where
    "foldl (\<lambda>rs ev. rs @ [op_origin rs ev]) (rs @ [op_origin rs ev]) u = (rs @ [op_origin rs ev]) @ s"
    and "length s = length u" by blast
  then have "foldl (\<lambda>rs ev. rs @ [op_origin rs ev]) rs (ev # u) = rs @ (op_origin rs ev # s) \<and>
      length (op_origin rs ev # s) = length (ev # u)" by simp
  then show ?case by blast
qed

lemma origins_append: "\<exists>s. origins (t @ u) = origins t @ s \<and> length s = length u"
  unfolding origins_def foldl_append by (rule origins_grow)

lemma length_origins: "length (origins t) = length t"
  using origins_append [of "[]" t] by (auto simp: origins_def)

lemma origins_prefix: "prefix t T \<Longrightarrow> prefix (origins t) (origins T)"
  using origins_append by (fastforce simp: prefix_def)





lemma flipchip_staged:
  "staged_calls (flipchip_trace b) =
     [(''TransmonCross'', Geometry), (''ReadoutResFC'', Geometry),
      (''EPRanalysis'', Postprocessing), (''run'', Solving), (''run_epr'', Postprocessing)]"
  by (cases b) (simp_all, code_simp+)


lemma flipchip_no_rendering: "Rendering \<notin> set (stages (flipchip_trace b))"
  unfolding stages_def flipchip_staged by simp




subsection \<open>Handles\<close>





lemma flipchip_gui_present:
  "calls ''MetalGUI'' (flipchip_trace True ! 11) \<and>
   opened_from 0 (flipchip_trace True) =
     [VAttr (VExt 11) ''main_window'', VAttr (VExt 29) ''project'', VAttr (VExt 29) ''desktop'',
      VAttr (VExt 29) ''app'', VAttr (VExt 39) ''sim''] \<and>
   closed (flipchip_trace True) =
     [VAttr (VExt 29) ''project'', VAttr (VExt 29) ''desktop'', VAttr (VExt 29) ''app'',
      VAttr (VLib ''pyEPR'') ''ansys'', VAttr (VExt 39) ''sim'']"
  by code_simp




subsection \<open>Connection pads and opened pins\<close>

lemma elmer_no_early_render: "list_all (\<lambda>ev. \<not> calls ''render_design'' ev) (take 11 elmer_trace)"
  by code_simp

lemma elmer_transmon: "calls ''TransmonPocket6'' (elmer_trace ! 10)"
  by code_simp

lemma elmer_declared_by: "declared elmer_trace = declared_pins (elmer_trace ! 10)"
  by code_simp

lemma elmer_declared:
  "declared elmer_trace =
     [VTuple [VStr ''Q1'', VStr ''readout''], VTuple [VStr ''Q1'', VStr ''coupler1''],
      VTuple [VStr ''Q1'', VStr ''coupler2'']]"
  by code_simp

lemma elmer_renders:
  "map receiver (filter (calls ''render_design'') elmer_trace) =
     [Some (VExt 14), Some (VExt 14), Some (VExt 14), Some (VExt 31)] \<and>
   calls ''QGmshRenderer'' (elmer_trace ! 14) \<and> calls ''QElmerRenderer'' (elmer_trace ! 31)"
  by code_simp

lemma elmer_open_pins:
  "map (keyword_arg ''open_pins'') (filter (calls ''render_design'') elmer_trace) =
     replicate 4 (Some (VList
       [VTuple [VStr ''Q1'', VStr ''coupler1''], VTuple [VStr ''Q1'', VStr ''coupler2''],
        VTuple [VStr ''Q1'', VStr ''readout'']]))"
  by code_simp

lemma elmer_renders_open:
  "list_all (opens_exactly (declared elmer_trace)) (filter (calls ''render_design'') elmer_trace)"
proof -
  have "opens_exactly (declared elmer_trace) ev"
    if "ev \<in> set (filter (calls ''render_design'') elmer_trace)" for ev
  proof -
    from that have "keyword_arg ''open_pins'' ev \<in>
        keyword_arg ''open_pins'' ` set (filter (calls ''render_design'') elmer_trace)"
      by (rule imageI)
    then have "keyword_arg ''open_pins'' ev \<in>
        set (map (keyword_arg ''open_pins'') (filter (calls ''render_design'') elmer_trace))"
      by (simp only: set_map)
    then have "keyword_arg ''open_pins'' ev = Some (VList
       [VTuple [VStr ''Q1'', VStr ''coupler1''], VTuple [VStr ''Q1'', VStr ''coupler2''],
        VTuple [VStr ''Q1'', VStr ''readout'']])"
      unfolding elmer_open_pins by simp
    then show ?thesis unfolding elmer_declared by auto
  qed
  then show ?thesis unfolding list_all_iff by blast
qed

lemma declared_prefix: "prefix t T \<Longrightarrow> set (declared t) \<subseteq> set (declared T)"
  by (auto simp: prefix_def declared_def)

lemma declared_has:
  "ev \<in> set t \<Longrightarrow> calls ''TransmonPocket6'' ev \<Longrightarrow> set (declared_pins ev) \<subseteq> set (declared t)"
  by (auto simp: declared_def)

lemma render_opens_declared:
  assumes p: "prefix t elmer_trace" and ev: "ev \<in> set t" and c: "calls ''render_design'' ev"
  shows "opens_exactly (declared t) ev"
proof -
  have evT: "ev \<in> set elmer_trace" using p ev set_mono_prefix by blast
  have "\<not> length t \<le> 11"
  proof
    assume "length t \<le> 11"
    with p have "set t \<subseteq> set (take 11 elmer_trace)" by (rule prefix_take)
    with ev c elmer_no_early_render show False by (auto simp: list_all_iff)
  qed
  then have l: "10 < length t" by simp
  with p have "t ! 10 = elmer_trace ! 10" by (rule prefix_nth)
  with l have in10: "elmer_trace ! 10 \<in> set t" using nth_mem by metis
  have "set (declared t) = set (declared elmer_trace)"
  proof
    show "set (declared t) \<subseteq> set (declared elmer_trace)" using p by (rule declared_prefix)
    show "set (declared elmer_trace) \<subseteq> set (declared t)"
      unfolding elmer_declared_by using in10 elmer_transmon by (rule declared_has)
  qed
  moreover have "opens_exactly (declared elmer_trace) ev"
    using elmer_renders_open evT c by (auto simp: list_all_iff)
  ultimately show ?thesis by (auto split: option.splits val.splits)
qed

text \<open>
  C9. In every run of the ElmerFEM notebook, each \<open>render_design\<close> is given an
  \<open>open_pins\<close> list whose pins are exactly the pads the construction of the transmon
  declared in its \<open>connection_pads\<close>. A run that completes declares the pads
  \<open>readout\<close>, \<open>coupler1\<close> and \<open>coupler2\<close> of \<open>Q1\<close> and renders four times: three
  times on the Gmsh renderer (the result of operation 14) and once on the Elmer
  renderer (the result of operation 31).
\<close>

theorem render_opens_declared_pads:
  "(\<forall>ev \<in> set (events x elmer_notebook). calls ''render_design'' ev \<longrightarrow>
      opens_exactly (declared (events x elmer_notebook)) ev) \<and>
   (stopped x elmer_notebook = None \<longrightarrow>
      declared (events x elmer_notebook) =
        [VTuple [VStr ''Q1'', VStr ''readout''], VTuple [VStr ''Q1'', VStr ''coupler1''],
         VTuple [VStr ''Q1'', VStr ''coupler2'']] \<and>
      map receiver (filter (calls ''render_design'') (events x elmer_notebook)) =
        [Some (VExt 14), Some (VExt 14), Some (VExt 14), Some (VExt 31)] \<and>
      calls ''QGmshRenderer'' (events x elmer_notebook ! 14) \<and>
      calls ''QElmerRenderer'' (events x elmer_notebook ! 31))"
proof -
  have f: "follows x elmer_notebook elmer_trace (textual_order True elmer_notebook)"
    by (rule follows_elmer)
  then have "prefix (events x elmer_notebook) elmer_trace" by (rule follows_prefix)
  then have "\<forall>ev \<in> set (events x elmer_notebook). calls ''render_design'' ev \<longrightarrow>
      opens_exactly (declared (events x elmer_notebook)) ev"
    using render_opens_declared by blast
  moreover have "stopped x elmer_notebook = None \<Longrightarrow> events x elmer_notebook = elmer_trace"
    using f by (rule follows_completed)
  ultimately show ?thesis using elmer_declared elmer_renders by simp
qed

theorem render_opens_declared_pads_witness:
  "stopped material_present elmer_notebook = None \<and>
   events material_present elmer_notebook ! 15 \<in> set (events material_present elmer_notebook) \<and>
   calls ''render_design'' (events material_present elmer_notebook ! 15) \<and>
   opens_exactly (declared (events material_present elmer_notebook))
     (events material_present elmer_notebook ! 15) \<and>
   declared (events material_present elmer_notebook) =
     [VTuple [VStr ''Q1'', VStr ''readout''], VTuple [VStr ''Q1'', VStr ''coupler1''],
      VTuple [VStr ''Q1'', VStr ''coupler2'']]"
proof -
  have e: "events material_present elmer_notebook = elmer_trace"
    and s: "stopped material_present elmer_notebook = None"
    using present_elmer by simp_all
  have m: "elmer_trace ! 15 \<in> set elmer_trace"
    by (rule nth_mem) (simp add: length_elmer_trace)
  have c: "calls ''render_design'' (elmer_trace ! 15)"
    by code_simp
  from render_opens_declared_pads [of material_present] e s m c show ?thesis
    by (auto simp del: opens_exactly.simps)
qed

subsection \<open>The material of the chips\<close>

lemma flipchip_present_adds_nothing: "\<not> list_ex (calls ''AddMaterial'') (flipchip_trace True)"
  by code_simp

lemma flipchip_no_early_add:
  "list_all (\<lambda>ev. \<not> calls ''AddMaterial'' ev) (take 32 (flipchip_trace False))"
  by code_simp

lemma flipchip_asks:
  "calls ''DoesMaterialExist'' (flipchip_trace b ! 31) \<and>
   receiver (flipchip_trace b ! 31) = Some (VExt 30) \<and>
   args (flipchip_trace b ! 31) = [VStr ''Si_11.45'']"
  by (cases b) (simp_all, code_simp+)

lemma flipchip_adds:
  "filter (calls ''AddMaterial'') (flipchip_trace False) = [flipchip_trace False ! 32] \<and>
   receiver (flipchip_trace False ! 32) = Some (VExt 30) \<and>
   map (\<lambda>v. case v of VList vs \<Rightarrow> hd vs | _ \<Rightarrow> v) (args (flipchip_trace False ! 32)) =
     [VStr ''NAME:Si_11.45'']"
  by code_simp

lemma flipchip_materials:
  "chip_materials (flipchip_trace b) =
     [(VStr ''C_chip'', VStr ''Si_11.45''), (VStr ''Q_chip'', VStr ''Si_11.45'')]"
  by (cases b) (simp_all, code_simp+)

lemma flipchip_add_count:
  "length (filter (calls ''AddMaterial'') (flipchip_trace b)) = (if b then 0 else 1)"
  by (cases b) (simp_all, code_simp+)

lemma add_only_if_missing:
  assumes p: "prefix t (flipchip_trace b)" and a: "list_ex (calls ''AddMaterial'') t"
  shows "\<not> b \<and> 31 < length t \<and> t ! 31 = flipchip_trace b ! 31"
proof -
  from a obtain ev where ev: "ev \<in> set t" "calls ''AddMaterial'' ev"
    by (auto simp: list_ex_iff)
  have nb: "\<not> b"
  proof
    assume b
    with p ev have "ev \<in> set (flipchip_trace True)" using set_mono_prefix by fastforce
    with ev flipchip_present_adds_nothing show False by (auto simp: list_ex_iff)
  qed
  have "\<not> length t \<le> 32"
  proof
    assume "length t \<le> 32"
    with p nb have "set t \<subseteq> set (take 32 (flipchip_trace False))" using prefix_take by simp
    with ev flipchip_no_early_add show False by (auto simp: list_all_iff)
  qed
  then have l: "31 < length t" by simp
  with p have "t ! 31 = flipchip_trace b ! 31" by (rule prefix_nth)
  with nb l show ?thesis by simp
qed

text \<open>
  C8. In every run of the FlipChip notebook, \<open>AddMaterial\<close> is attempted only after
  operation 31, \<open>DoesMaterialExist\<close> of the material \<open>Si_11.45\<close> on the definition
  manager, has returned a result that is false. A run that completes attempts it once
  when that result is false and never when it is true, on the same definition manager
  and for the material of that name; either way both chips are then given the material
  \<open>Si_11.45\<close>.
\<close>

theorem add_material_only_if_missing:
  "(list_ex (calls ''AddMaterial'') (events x flipchip_notebook) \<longrightarrow>
      31 < length (events x flipchip_notebook) \<and>
      calls ''DoesMaterialExist'' (events x flipchip_notebook ! 31) \<and>
      args (events x flipchip_notebook ! 31) = [VStr ''Si_11.45''] \<and>
      \<not> truth x (VExt 31)) \<and>
   (stopped x flipchip_notebook = None \<longrightarrow>
      length (filter (calls ''AddMaterial'') (events x flipchip_notebook)) =
        (if truth x (VExt 31) then 0 else 1) \<and>
      chip_materials (events x flipchip_notebook) =
        [(VStr ''C_chip'', VStr ''Si_11.45''), (VStr ''Q_chip'', VStr ''Si_11.45'')]) \<and>
   (stopped x flipchip_notebook = None \<and> \<not> truth x (VExt 31) \<longrightarrow>
      filter (calls ''AddMaterial'') (events x flipchip_notebook) =
        [events x flipchip_notebook ! 32] \<and>
      receiver (events x flipchip_notebook ! 32) = receiver (events x flipchip_notebook ! 31) \<and>
      map (\<lambda>v. case v of VList vs \<Rightarrow> hd vs | _ \<Rightarrow> v) (args (events x flipchip_notebook ! 32)) =
        [VStr ''NAME:Si_11.45''])"
proof -
  have f: "follows x flipchip_notebook (flipchip_trace (truth x (VExt 31)))
             (textual_order (\<not> truth x (VExt 31)) flipchip_notebook)"
    by (rule follows_flipchip)
  then have p: "prefix (events x flipchip_notebook) (flipchip_trace (truth x (VExt 31)))"
    by (rule follows_prefix)
  have c: "stopped x flipchip_notebook = None \<Longrightarrow>
           events x flipchip_notebook = flipchip_trace (truth x (VExt 31))"
    using f by (rule follows_completed)
  have 1: "list_ex (calls ''AddMaterial'') (events x flipchip_notebook) \<longrightarrow>
      31 < length (events x flipchip_notebook) \<and>
      calls ''DoesMaterialExist'' (events x flipchip_notebook ! 31) \<and>
      args (events x flipchip_notebook ! 31) = [VStr ''Si_11.45''] \<and>
      \<not> truth x (VExt 31)"
    using add_only_if_missing [OF p] by (simp add: flipchip_asks)
  have 2: "stopped x flipchip_notebook = None \<longrightarrow>
      length (filter (calls ''AddMaterial'') (events x flipchip_notebook)) =
        (if truth x (VExt 31) then 0 else 1) \<and>
      chip_materials (events x flipchip_notebook) =
        [(VStr ''C_chip'', VStr ''Si_11.45''), (VStr ''Q_chip'', VStr ''Si_11.45'')]"
    using c flipchip_add_count [of "truth x (VExt 31)"] flipchip_materials by simp
  have 3: "stopped x flipchip_notebook = None \<and> \<not> truth x (VExt 31) \<longrightarrow>
      filter (calls ''AddMaterial'') (events x flipchip_notebook) =
        [events x flipchip_notebook ! 32] \<and>
      receiver (events x flipchip_notebook ! 32) = receiver (events x flipchip_notebook ! 31) \<and>
      map (\<lambda>v. case v of VList vs \<Rightarrow> hd vs | _ \<Rightarrow> v) (args (events x flipchip_notebook ! 32)) =
        [VStr ''NAME:Si_11.45'']"
    using c flipchip_adds flipchip_asks [of False] by simp
  show ?thesis by (rule conjI [OF 1 conjI [OF 2 3]])
qed

theorem add_material_only_if_missing_witness:
  "list_ex (calls ''AddMaterial'') (events material_missing flipchip_notebook) \<and>
   \<not> truth material_missing (VExt 31) \<and>
   stopped material_missing flipchip_notebook = None \<and>
   calls ''DoesMaterialExist'' (events material_missing flipchip_notebook ! 31) \<and>
   length (filter (calls ''AddMaterial'') (events material_missing flipchip_notebook)) = 1 \<and>
   chip_materials (events material_missing flipchip_notebook) =
     [(VStr ''C_chip'', VStr ''Si_11.45''), (VStr ''Q_chip'', VStr ''Si_11.45'')]"
proof -
  have a: "list_ex (calls ''AddMaterial'') (flipchip_trace False)"
    by code_simp
  have t: "\<not> truth material_missing (VExt 31)"
    by (simp add: material_missing_def)
  from add_material_only_if_missing [of material_missing] missing_flipchip a t
  show ?thesis by simp
qed

subsection \<open>The text of the notebooks\<close>

lemma elmer_plain:
  "list_all (\<lambda>s. \<not> is_def s \<and> \<not> is_loop s \<and> \<not> is_try s \<and> \<not> is_check s \<and> \<not> is_branch s)
     (statements elmer_notebook)"
  by code_simp

lemma flipchip_plain:
  "list_all (\<lambda>s. \<not> is_def s \<and> \<not> is_loop s \<and> \<not> is_try s \<and> \<not> is_check s)
     (statements flipchip_notebook)"
  by code_simp

lemma elmer_no_lambda: "list_all (\<lambda>e. \<not> is_lambda e) (expressions elmer_notebook)"
  by code_simp

lemma flipchip_no_lambda: "list_all (\<lambda>e. \<not> is_lambda e) (expressions flipchip_notebook)"
  by code_simp

lemma elmer_operators:
  "filter is_operator (expressions elmer_notebook) =
     replicate 3 (BinOp (FloatLit ''0.404314'') MultOp (Name ''c_light''))"
  by code_simp

lemma flipchip_operators:
  "filter is_operator (expressions flipchip_notebook) =
     [NotE (Call (path ''defmanager'' [''DoesMaterialExist'']) [Name ''newMaterial_name''] []),
      BinOp (StrLit ''NAME:%s'') ModOp (Name ''newMaterial_name''),
      BinOp (StrLit ''%s'') ModOp (Name ''newMaterial_permittivity''),
      BinOp (StrLit ''%s'') ModOp (Name ''newMaterial_losstangent'')]"
  by code_simp

lemma elmer_no_branch: "filter is_branch (statements elmer_notebook) = []"
  by code_simp

lemma flipchip_one_branch:
  "filter is_branch (statements flipchip_notebook) = [source cell_6eb99015 ! 4]"
  by code_simp

lemma elmer_no_guard: "filter is_guard (statements elmer_notebook) = []"
  by code_simp

lemma flipchip_one_guard:
  "filter is_guard (statements flipchip_notebook) = [source cell_6eb99015 ! 4]"
  by code_simp


lemma material_check:
  "is_branch (source cell_6eb99015 ! 4) \<and> is_guard (source cell_6eb99015 ! 4) \<and>
   source cell_6eb99015 ! 4 \<in> set (statements flipchip_notebook)"
  by code_simp

lemma elmer_positions:
  "distinct (textual_order True elmer_notebook) \<and>
   length (textual_order True elmer_notebook) = length (statements elmer_notebook) \<and>
   textual_order False elmer_notebook = textual_order True elmer_notebook"
  by code_simp

lemma flipchip_positions:
  "distinct (textual_order True flipchip_notebook) \<and>
   length (textual_order True flipchip_notebook) = length (statements flipchip_notebook) \<and>
   textual_order False flipchip_notebook = remove1 [10, 4, 0] (textual_order True flipchip_notebook) \<and>
   [10, 4, 0] \<in> set (textual_order True flipchip_notebook) \<and>
   [10, 4, 0] \<notin> set (textual_order False flipchip_notebook)"
  by code_simp

subsection \<open>The origins of the operations\<close>

lemma elmer_origins: "list_all is_library (origins elmer_trace)"
  by code_simp

lemma flipchip_origins: "list_all is_library (origins (flipchip_trace b))"
  by (cases b) (simp_all, code_simp+)

lemma elmer_computations:
  "calls ''add_mesh'' (elmer_trace ! 17) \<and>
   origins elmer_trace ! 17 = VLib ''qiskit_metal.renderers.renderer_gmsh.gmsh_renderer'' \<and>
   calls ''run'' (elmer_trace ! 38) \<and>
   origins elmer_trace ! 38 = VLib ''qiskit_metal.renderers.renderer_elmer.elmer_renderer'' \<and>
   calls ''hamiltonian_results'' (elmer_trace ! 61) \<and>
   origins elmer_trace ! 61 = VLib ''qiskit_metal.analyses.quantization.lom_core_analysis''"
  by code_simp

lemma library_prefix:
  assumes "prefix t T" and "list_all is_library (origins T)"
  shows "list_all is_library (origins t)"
proof -
  from assms(1) have "prefix (origins t) (origins T)" by (rule origins_prefix)
  then have "set (origins t) \<subseteq> set (origins T)" by (rule set_mono_prefix)
  with assms(2) show ?thesis by (auto simp: list_all_iff)
qed

text \<open>
  C1. Neither notebook defines a function or a class or writes a lambda, and the only
  operators it applies itself are three products of a constant (ElmerFEM) and one
  \<open>not\<close> and three string formats (FlipChip). Every operation of every run, of either
  notebook, is a call of, or a store on, something obtained from an imported library, a
  Python builtin or an IPython magic: in a completed run of the ElmerFEM notebook all
  69 operations, among them the meshing (operation 17), the solve (38) and the
  diagonalisation (61); in a completed run of the FlipChip notebook all 51, or 52 when
  the material is added.
\<close>

theorem only_library_calls:
  "list_all (\<lambda>s. \<not> is_def s) (statements elmer_notebook) \<and>
   list_all (\<lambda>s. \<not> is_def s) (statements flipchip_notebook) \<and>
   list_all (\<lambda>e. \<not> is_lambda e) (expressions elmer_notebook) \<and>
   list_all (\<lambda>e. \<not> is_lambda e) (expressions flipchip_notebook) \<and>
   filter is_operator (expressions elmer_notebook) =
     replicate 3 (BinOp (FloatLit ''0.404314'') MultOp (Name ''c_light'')) \<and>
   filter is_operator (expressions flipchip_notebook) =
     [NotE (Call (path ''defmanager'' [''DoesMaterialExist'']) [Name ''newMaterial_name''] []),
      BinOp (StrLit ''NAME:%s'') ModOp (Name ''newMaterial_name''),
      BinOp (StrLit ''%s'') ModOp (Name ''newMaterial_permittivity''),
      BinOp (StrLit ''%s'') ModOp (Name ''newMaterial_losstangent'')] \<and>
   list_all is_library (origins (events x elmer_notebook)) \<and>
   list_all is_library (origins (events x flipchip_notebook)) \<and>
   (stopped x elmer_notebook = None \<longrightarrow>
      length (origins (events x elmer_notebook)) = 69 \<and>
      calls ''add_mesh'' (events x elmer_notebook ! 17) \<and>
      origins (events x elmer_notebook) ! 17 =
        VLib ''qiskit_metal.renderers.renderer_gmsh.gmsh_renderer'' \<and>
      calls ''run'' (events x elmer_notebook ! 38) \<and>
      origins (events x elmer_notebook) ! 38 =
        VLib ''qiskit_metal.renderers.renderer_elmer.elmer_renderer'' \<and>
      calls ''hamiltonian_results'' (events x elmer_notebook ! 61) \<and>
      origins (events x elmer_notebook) ! 61 =
        VLib ''qiskit_metal.analyses.quantization.lom_core_analysis'') \<and>
   (stopped x flipchip_notebook = None \<longrightarrow>
      length (origins (events x flipchip_notebook)) = (if truth x (VExt 31) then 51 else 52))"
proof -
  have fe: "follows x elmer_notebook elmer_trace (textual_order True elmer_notebook)"
    by (rule follows_elmer)
  have ff: "follows x flipchip_notebook (flipchip_trace (truth x (VExt 31)))
              (textual_order (\<not> truth x (VExt 31)) flipchip_notebook)"
    by (rule follows_flipchip)
  have 1: "list_all (\<lambda>s. \<not> is_def s) (statements elmer_notebook)"
    using elmer_plain by (auto simp: list_all_iff)
  have 2: "list_all (\<lambda>s. \<not> is_def s) (statements flipchip_notebook)"
    using flipchip_plain by (auto simp: list_all_iff)
  have 3: "list_all is_library (origins (events x elmer_notebook))"
    using follows_prefix [OF fe] elmer_origins by (rule library_prefix)
  have 4: "list_all is_library (origins (events x flipchip_notebook))"
    using follows_prefix [OF ff] flipchip_origins by (rule library_prefix)
  have 5: "stopped x elmer_notebook = None \<Longrightarrow> events x elmer_notebook = elmer_trace"
    using follows_completed [OF fe] by simp
  have 6: "stopped x flipchip_notebook = None \<Longrightarrow>
             events x flipchip_notebook = flipchip_trace (truth x (VExt 31))"
    using follows_completed [OF ff] by simp
  have 7: "length (origins (flipchip_trace (truth x (VExt 31)))) =
             (if truth x (VExt 31) then 51 else 52)"
    by (simp add: length_origins length_flipchip_present length_flipchip_missing)
  from 1 2 3 4 5 6 7 show ?thesis
    by (simp add: elmer_no_lambda flipchip_no_lambda elmer_operators flipchip_operators
        elmer_computations length_origins length_elmer_trace)
qed

theorem only_library_calls_witness:
  "stopped material_missing elmer_notebook = None \<and>
   length (origins (events material_missing elmer_notebook)) = 69 \<and>
   stopped material_missing flipchip_notebook = None \<and>
   length (origins (events material_missing flipchip_notebook)) = 52 \<and>
   list_all is_library (origins (events material_missing flipchip_notebook))"
proof -
  have t: "\<not> truth material_missing (VExt 31)"
    by (simp add: material_missing_def)
  from only_library_calls [of material_missing] missing_elmer missing_flipchip t
  show ?thesis by simp
qed

text \<open>
  C2, as the code has it. Neither notebook has a loop, and the ElmerFEM notebook has no
  conditional: a run of it that completes starts each of its 75 statements once, in the
  order of the text. The FlipChip notebook has one conditional, the material check of
  cell \<open>6eb99015\<close>. A run of it that completes starts every statement outside the
  body of that conditional once, in the order of the text, and the one statement of the
  body (position \<open>[10, 4, 0]\<close>, the call of \<open>AddMaterial\<close>) once when
  \<open>DoesMaterialExist\<close> returned false and not at all when it returned true. A run
  that an external operation stops has started an initial part of these statements.
\<close>

theorem straight_line_but_one_branch:
  "list_all (\<lambda>s. \<not> is_loop s) (statements elmer_notebook) \<and>
   list_all (\<lambda>s. \<not> is_loop s) (statements flipchip_notebook) \<and>
   filter is_branch (statements elmer_notebook) = [] \<and>
   filter is_branch (statements flipchip_notebook) = [source cell_6eb99015 ! 4] \<and>
   distinct (textual_order True elmer_notebook) \<and>
   length (textual_order True elmer_notebook) = length (statements elmer_notebook) \<and>
   distinct (textual_order True flipchip_notebook) \<and>
   length (textual_order True flipchip_notebook) = length (statements flipchip_notebook) \<and>
   prefix (started x elmer_notebook) (textual_order True elmer_notebook) \<and>
   (stopped x elmer_notebook = None \<longrightarrow>
      started x elmer_notebook = textual_order True elmer_notebook) \<and>
   prefix (started x flipchip_notebook)
     (if truth x (VExt 31) then remove1 [10, 4, 0] (textual_order True flipchip_notebook)
      else textual_order True flipchip_notebook) \<and>
   (stopped x flipchip_notebook = None \<longrightarrow>
      started x flipchip_notebook =
        (if truth x (VExt 31) then remove1 [10, 4, 0] (textual_order True flipchip_notebook)
         else textual_order True flipchip_notebook))"
proof -
  have fe: "follows x elmer_notebook elmer_trace (textual_order True elmer_notebook)"
    by (rule follows_elmer)
  have ff: "follows x flipchip_notebook (flipchip_trace (truth x (VExt 31)))
              (textual_order (\<not> truth x (VExt 31)) flipchip_notebook)"
    by (rule follows_flipchip)
  have 1: "list_all (\<lambda>s. \<not> is_loop s) (statements elmer_notebook)"
    using elmer_plain by (auto simp: list_all_iff)
  have 2: "list_all (\<lambda>s. \<not> is_loop s) (statements flipchip_notebook)"
    using flipchip_plain by (auto simp: list_all_iff)
  have 3: "textual_order (\<not> truth x (VExt 31)) flipchip_notebook =
      (if truth x (VExt 31) then remove1 [10, 4, 0] (textual_order True flipchip_notebook)
       else textual_order True flipchip_notebook)"
    using flipchip_positions by simp
  have 4: "prefix (started x flipchip_notebook)
             (textual_order (\<not> truth x (VExt 31)) flipchip_notebook)"
    using ff by (rule follows_started_prefix)
  have 5: "stopped x flipchip_notebook = None \<Longrightarrow>
      started x flipchip_notebook = textual_order (\<not> truth x (VExt 31)) flipchip_notebook"
    using ff by (rule follows_started)
  have 6: "prefix (started x elmer_notebook) (textual_order True elmer_notebook)"
    using fe by (rule follows_started_prefix)
  have 7: "stopped x elmer_notebook = None \<Longrightarrow>
      started x elmer_notebook = textual_order True elmer_notebook"
    using fe by (rule follows_started)
  from 1 2 4 5 6 7 show ?thesis
    unfolding 3 by (simp add: elmer_no_branch flipchip_one_branch elmer_positions flipchip_positions)
qed

theorem straight_line_but_one_branch_witness:
  "stopped material_missing elmer_notebook = None \<and>
   started material_missing elmer_notebook = textual_order True elmer_notebook \<and>
   stopped material_missing flipchip_notebook = None \<and>
   \<not> truth material_missing (VExt 31) \<and>
   started material_missing flipchip_notebook = textual_order True flipchip_notebook"
proof -
  have t: "\<not> truth material_missing (VExt 31)"
    by (simp add: material_missing_def)
  from straight_line_but_one_branch [of material_missing] missing_elmer missing_flipchip t
  show ?thesis by simp
qed

text \<open>
  The notebooks are not free of conditionals: statement 4 of cell \<open>6eb99015\<close> of the
  FlipChip notebook is an \<open>if\<close>, and in the run in which nothing raises and the
  material exists the statement of its body, which the text has at position
  \<open>[10, 4, 0]\<close>, is not started.
\<close>

theorem material_check_branches:
  "is_branch (source cell_6eb99015 ! 4) \<and>
   source cell_6eb99015 ! 4 \<in> set (statements flipchip_notebook) \<and>
   stopped material_present flipchip_notebook = None \<and>
   [10, 4, 0] \<in> set (textual_order True flipchip_notebook) \<and>
   [10, 4, 0] \<notin> set (started material_present flipchip_notebook)"
  using material_check present_flipchip flipchip_positions by simp

subsection \<open>Failures and checks\<close>

text \<open>
  C5, as the code has it. Neither notebook has a \<open>try\<close> or a loop, and the ElmerFEM
  notebook has no guard. The FlipChip notebook has one guard: the \<open>if\<close> of cell
  \<open>6eb99015\<close> asks the ANSYS definition manager whether the material exists before it
  adds it. Nothing handles a failure: in every run of either notebook, an external
  operation (a call, a store on an external object, an import or a magic) that raises
  is the last operation attempted, and the run ends with the error it raised.
\<close>

theorem failures_propagate:
  "list_all (\<lambda>s. \<not> is_try s \<and> \<not> is_loop s) (statements elmer_notebook) \<and>
   list_all (\<lambda>s. \<not> is_try s \<and> \<not> is_loop s) (statements flipchip_notebook) \<and>
   filter is_guard (statements elmer_notebook) = [] \<and>
   filter is_guard (statements flipchip_notebook) = [source cell_6eb99015 ! 4] \<and>
   (k < length (events x elmer_notebook) \<and> raises x k \<longrightarrow>
      stopped x elmer_notebook = Some (Raised k) \<and> length (events x elmer_notebook) = Suc k) \<and>
   (k < length (events x flipchip_notebook) \<and> raises x k \<longrightarrow>
      stopped x flipchip_notebook = Some (Raised k) \<and>
      length (events x flipchip_notebook) = Suc k)"
proof -
  have fe: "follows x elmer_notebook elmer_trace (textual_order True elmer_notebook)"
    by (rule follows_elmer)
  have ff: "follows x flipchip_notebook (flipchip_trace (truth x (VExt 31)))
              (textual_order (\<not> truth x (VExt 31)) flipchip_notebook)"
    by (rule follows_flipchip)
  have 1: "list_all (\<lambda>s. \<not> is_try s \<and> \<not> is_loop s) (statements elmer_notebook)"
    using elmer_plain by (auto simp: list_all_iff)
  have 2: "list_all (\<lambda>s. \<not> is_try s \<and> \<not> is_loop s) (statements flipchip_notebook)"
    using flipchip_plain by (auto simp: list_all_iff)
  from 1 2 follows_stops [OF fe, of k] follows_stops [OF ff, of k] show ?thesis
    by (simp add: elmer_no_guard flipchip_one_guard)
qed

theorem failures_propagate_witness:
  "38 < length (events (raising_at 38) elmer_notebook) \<and> raises (raising_at 38) 38 \<and>
   stopped (raising_at 38) elmer_notebook = Some (Raised 38) \<and>
   length (events (raising_at 38) elmer_notebook) = 39 \<and>
   38 < length (events (raising_at 38) flipchip_notebook) \<and>
   stopped (raising_at 38) flipchip_notebook = Some (Raised 38)"
proof -
  have r: "raises (raising_at 38) 38" and o: "\<forall>j. raises (raising_at 38) j \<longrightarrow> j = 38"
    and t: "truth (raising_at 38) (VExt 31)"
    by (simp_all add: raising_at_def)
  have "stopped (raising_at 38) elmer_notebook = Some (Raised 38) \<and>
        events (raising_at 38) elmer_notebook = take (Suc 38) elmer_trace"
    using follows_elmer r o by (rule follows_raising) (simp add: length_elmer_trace)
  then have e: "length (events (raising_at 38) elmer_notebook) = 39"
    by (simp add: length_elmer_trace)
  have "follows (raising_at 38) flipchip_notebook (flipchip_trace True)
          (textual_order False flipchip_notebook)"
    using follows_flipchip [of "raising_at 38"] t by simp
  then have "stopped (raising_at 38) flipchip_notebook = Some (Raised 38) \<and>
        events (raising_at 38) flipchip_notebook = take (Suc 38) (flipchip_trace True)"
    using r o by (rule follows_raising) (simp add: length_flipchip_present)
  then have f: "length (events (raising_at 38) flipchip_notebook) = 39"
    by (simp add: length_flipchip_present)
  from failures_propagate [where x = "raising_at 38" and k = 38] r e f show ?thesis
    by simp
qed

text \<open>
  The notebooks are not free of guards: statement 4 of cell \<open>6eb99015\<close> of the FlipChip
  notebook is an \<open>if\<close> on the answer of \<open>DoesMaterialExist\<close>, and \<open>AddMaterial\<close>
  is attempted in the run in which the material is missing and not in the run in which
  it exists.
\<close>

theorem material_check_guards:
  "is_guard (source cell_6eb99015 ! 4) \<and>
   source cell_6eb99015 ! 4 \<in> set (statements flipchip_notebook) \<and>
   list_ex (calls ''AddMaterial'') (events material_missing flipchip_notebook) \<and>
   \<not> list_ex (calls ''AddMaterial'') (events material_present flipchip_notebook)"
proof -
  have "list_ex (calls ''AddMaterial'') (flipchip_trace False)"
    by code_simp
  then show ?thesis
    using material_check missing_flipchip present_flipchip flipchip_present_adds_nothing
    by simp
qed



subsection \<open>The capacitance matrix file\<close>










end
